theory Spec2Isabelle
  imports Main
begin

section \<open>Python values as the weather module sees them\<close>

text \<open>
  The upstream bodies are decoded JSON, so every value the module handles is one of
  Python's \<open>None\<close>, \<open>bool\<close>, \<open>int\<close>, \<open>float\<close>, \<open>str\<close>, \<open>list\<close> or \<open>dict\<close> with
  string keys. The program never computes with a float: it formats one in an f-string and
  uses one as a dictionary key against the integer keys of \<open>WMO_CODES\<close>. A float is
  therefore kept as these two observations: the integer it compares equal to (if any) and
  the text \<open>str\<close> gives for it. A \<open>str\<close> is a list of characters, one \<open>char\<close> per
  code point. A \<open>dict\<close> is an association list read with \<open>map_of\<close>: the first binding
  of a key is the dictionary's value for it.
\<close>

datatype pyfloat = PyFloat (float_int: "int option") (float_str: string)

datatype json =
    JNull
  | JBool bool
  | JInt int
  | JFloat pyfloat
  | JStr string
  | JList "json list"
  | JDict "(string \<times> json) list"

text \<open>The exceptions that the modelled operations can raise.\<close>

datatype pyexc =
    KeyError
  | TypeError
  | IndexError
  | AttributeError
  | JSONDecodeError
  | OtherException

text \<open>Sequencing of operations that may raise: the first exception ends the block.\<close>

definition and_then :: "'e + 'a \<Rightarrow> ('a \<Rightarrow> 'e + 'b) \<Rightarrow> 'e + 'b" where
  "and_then m f = (case m of Inl e \<Rightarrow> Inl e | Inr v \<Rightarrow> f v)"

text \<open>\<open>x[key]\<close> with a string key: only a dict accepts it.\<close>

fun getitem :: "json \<Rightarrow> string \<Rightarrow> pyexc + json" where
  "getitem (JDict kvs) k = (case map_of kvs k of None \<Rightarrow> Inl KeyError | Some v \<Rightarrow> Inr v)"
| "getitem JNull k = Inl TypeError"
| "getitem (JBool b) k = Inl TypeError"
| "getitem (JInt n) k = Inl TypeError"
| "getitem (JFloat f) k = Inl TypeError"
| "getitem (JStr s) k = Inl TypeError"
| "getitem (JList xs) k = Inl TypeError"

text \<open>
  \<open>x[i]\<close> with an index \<open>i \<ge> 0\<close>: a list or a string is read at the position, a dict
  (whose keys are all strings) has no such key, anything else is not subscriptable.
\<close>

fun getindex :: "json \<Rightarrow> nat \<Rightarrow> pyexc + json" where
  "getindex (JList xs) i = (if i < length xs then Inr (xs ! i) else Inl IndexError)"
| "getindex (JStr s) i = (if i < length s then Inr (JStr [s ! i]) else Inl IndexError)"
| "getindex (JDict kvs) i = Inl KeyError"
| "getindex JNull i = Inl TypeError"
| "getindex (JBool b) i = Inl TypeError"
| "getindex (JInt n) i = Inl TypeError"
| "getindex (JFloat f) i = Inl TypeError"

text \<open>\<open>len(x)\<close>.\<close>

fun py_len :: "json \<Rightarrow> pyexc + nat" where
  "py_len (JList xs) = Inr (length xs)"
| "py_len (JStr s) = Inr (length s)"
| "py_len (JDict kvs) = Inr (length (remdups (map fst kvs)))"
| "py_len JNull = Inl TypeError"
| "py_len (JBool b) = Inl TypeError"
| "py_len (JInt n) = Inl TypeError"
| "py_len (JFloat f) = Inl TypeError"

text \<open>\<open>x.get(key, default)\<close>: only a dict has the method.\<close>

fun dict_get :: "json \<Rightarrow> string \<Rightarrow> json \<Rightarrow> pyexc + json" where
  "dict_get (JDict kvs) k d = Inr (case map_of kvs k of None \<Rightarrow> d | Some v \<Rightarrow> v)"
| "dict_get JNull k d = Inl AttributeError"
| "dict_get (JBool b) k d = Inl AttributeError"
| "dict_get (JInt n) k d = Inl AttributeError"
| "dict_get (JFloat f) k d = Inl AttributeError"
| "dict_get (JStr s) k d = Inl AttributeError"
| "dict_get (JList xs) k d = Inl AttributeError"

text \<open>Truth value of a Python value, as \<open>if not x\<close> tests it.\<close>

fun truthy :: "json \<Rightarrow> bool" where
  "truthy JNull = False"
| "truthy (JBool b) = b"
| "truthy (JInt n) = (n \<noteq> 0)"
| "truthy (JFloat f) = (float_int f \<noteq> Some 0)"
| "truthy (JStr s) = (s \<noteq> [])"
| "truthy (JList xs) = (xs \<noteq> [])"
| "truthy (JDict kvs) = (kvs \<noteq> [])"

text \<open>
  \<open>str(n)\<close> for an integer: decimal digits, a leading minus sign when negative. The
  interpreter's limit on the digits of an int-to-str conversion is not modelled: an integer
  decoded from a JSON body is within it, decoding being subject to the same limit.
\<close>

fun str_nat :: "nat \<Rightarrow> string" where
  "str_nat n =
     (if n < 10 then [''0123456789'' ! n]
      else str_nat (n div 10) @ [''0123456789'' ! (n mod 10)])"

declare str_nat.simps [simp del]

definition str_int :: "int \<Rightarrow> string" where
  "str_int n = (if n < 0 then CHR ''-'' # str_nat (nat (- n)) else str_nat (nat n))"

section \<open>weather.py: the WMO code table\<close>

definition WMO_CODES :: "(int \<times> string) list" where
  "WMO_CODES =
     [(0, ''Clear sky''),
      (1, ''Mainly clear''),
      (2, ''Partly cloudy''),
      (3, ''Overcast''),
      (45, ''Fog''),
      (48, ''Depositing rime fog''),
      (51, ''Light drizzle''),
      (53, ''Moderate drizzle''),
      (55, ''Dense drizzle''),
      (56, ''Light freezing drizzle''),
      (57, ''Dense freezing drizzle''),
      (61, ''Slight rain''),
      (63, ''Moderate rain''),
      (65, ''Heavy rain''),
      (66, ''Light freezing rain''),
      (67, ''Heavy freezing rain''),
      (71, ''Slight snow fall''),
      (73, ''Moderate snow fall''),
      (75, ''Heavy snow fall''),
      (77, ''Snow grains''),
      (80, ''Slight rain showers''),
      (81, ''Moderate rain showers''),
      (82, ''Violent rain showers''),
      (85, ''Slight snow showers''),
      (86, ''Heavy snow showers''),
      (95, ''Thunderstorm''),
      (96, ''Thunderstorm with slight hail''),
      (99, ''Thunderstorm with heavy hail'')]"

text \<open>
  \<open>WMO_CODES.get(key, f"Unknown ({code})")\<close> once the key is known to be hashable:
  \<open>shown\<close> is the text the f-string gives for the code.
\<close>

definition wmo_get :: "int option \<Rightarrow> string \<Rightarrow> string" where
  "wmo_get key shown =
     (case (case key of None \<Rightarrow> None | Some k \<Rightarrow> map_of WMO_CODES k) of
        Some s \<Rightarrow> s
      | None \<Rightarrow> ''Unknown ('' @ shown @ '')'')"

text \<open>
  \<open>describe_weather_code(code)\<close>. The annotation says \<open>int\<close>, but the callers pass the
  upstream's value unchecked, so every Python value is covered: \<open>True\<close> and \<open>False\<close>
  hash and compare as 1 and 0, a float as the integer it equals, \<open>None\<close> and strings match
  no key, and a list or dict is unhashable, which makes \<open>dict.get\<close> raise \<open>TypeError\<close>.
\<close>

fun describe_weather_code :: "json \<Rightarrow> pyexc + string" where
  "describe_weather_code (JInt n) = Inr (wmo_get (Some n) (str_int n))"
| "describe_weather_code (JBool b) =
     Inr (wmo_get (Some (if b then 1 else 0)) (if b then ''True'' else ''False''))"
| "describe_weather_code (JFloat f) = Inr (wmo_get (float_int f) (float_str f))"
| "describe_weather_code JNull = Inr (wmo_get None ''None'')"
| "describe_weather_code (JStr s) = Inr (wmo_get None s)"
| "describe_weather_code (JList xs) = Inl TypeError"
| "describe_weather_code (JDict kvs) = Inl TypeError"

section \<open>weather.py: the outbound client\<close>

text \<open>
  One call of \<open>_client.get(url, params=...)\<close> ends in one of four ways: it raises
  \<open>httpx.TimeoutException\<close>, it raises another \<open>httpx.HTTPError\<close> (connection-level
  failures are of this kind), it raises an exception outside that class, or it returns a
  response. A response is its status code and what \<open>resp.json()\<close> makes of its body:
  \<open>None\<close> when the body does not decode as JSON. The upstream is a function from the
  request to this outcome, and every function returns, beside its result, the list of
  requests it sent.
\<close>

record request =
  url :: string
  params :: "(string \<times> json) list"

datatype http_outcome =
    Raises_TimeoutException
  | Raises_HTTPError
  | Raises_other
  | Responds int "json option"

type_synonym client = "request \<Rightarrow> http_outcome"

text \<open>
  What a function of the module ends with when it does not return: an \<open>HTTPException\<close>
  with its status code and detail, or an exception that nothing caught. The detail
  \<open>f"Unexpected weather data format: {exc}"\<close> is kept as the exception it quotes.
\<close>

datatype detail = Text string | Unexpected_format pyexc

datatype failure = HTTPException int detail | Uncaught pyexc

definition GEOCODING_URL :: string where
  "GEOCODING_URL = ''https://geocoding-api.open-meteo.com/v1/search''"

definition FORECAST_URL :: string where
  "FORECAST_URL = ''https://api.open-meteo.com/v1/forecast''"

definition CURRENT_VARS :: string where
  "CURRENT_VARS =
     ''temperature_2m,relative_humidity_2m,apparent_temperature,'' @
     ''weather_code,wind_speed_10m,wind_direction_10m,precipitation''"

definition DAILY_VARS :: string where
  "DAILY_VARS =
     ''weather_code,temperature_2m_max,temperature_2m_min,'' @
     ''precipitation_sum,precipitation_probability_max,wind_speed_10m_max''"

text \<open>
  The block that opens \<open>geocode\<close>, \<open>get_current\<close> and \<open>get_forecast\<close> alike: the call
  inside \<open>try\<close> with its two \<open>except\<close> clauses, the status check, and \<open>resp.json()\<close>,
  which stands outside every \<open>try\<close>.
\<close>

definition fetch :: "client \<Rightarrow> request \<Rightarrow> failure + json" where
  "fetch client req =
     (case client req of
        Raises_TimeoutException \<Rightarrow> Inl (HTTPException 504 (Text ''Weather data source timeout''))
      | Raises_HTTPError \<Rightarrow> Inl (HTTPException 502 (Text ''Weather data source unavailable''))
      | Raises_other \<Rightarrow> Inl (Uncaught OtherException)
      | Responds status_code body \<Rightarrow>
          if status_code \<noteq> 200
          then Inl (HTTPException 502 (Text ''Weather data source unavailable''))
          else (case body of
                  None \<Rightarrow> Inl (Uncaught JSONDecodeError)
                | Some data \<Rightarrow> Inr data))"

text \<open>
  \<open>except (KeyError, TypeError, IndexError) as exc: raise HTTPException(502, ...)\<close>
  around a block: any other exception passes through.
\<close>

definition except_format :: "pyexc + 'a \<Rightarrow> failure + 'a" where
  "except_format r =
     (case r of
        Inr v \<Rightarrow> Inr v
      | Inl exc \<Rightarrow>
          if exc = KeyError \<or> exc = TypeError \<or> exc = IndexError
          then Inl (HTTPException 502 (Unexpected_format exc))
          else Inl (Uncaught exc))"

text \<open>A block with no \<open>try\<close> around it: whatever it raises is uncaught.\<close>

definition no_except :: "pyexc + 'a \<Rightarrow> failure + 'a" where
  "no_except r = (case r of Inr v \<Rightarrow> Inr v | Inl exc \<Rightarrow> Inl (Uncaught exc))"

section \<open>weather.py: geocode\<close>

record location =
  name :: json
  country :: json
  latitude :: json
  longitude :: json

definition geocode_request :: "string \<Rightarrow> request" where
  "geocode_request city =
     \<lparr>url = GEOCODING_URL,
      params = [(''name'', JStr city), (''count'', JInt 1),
                (''language'', JStr ''en''), (''format'', JStr ''json'')]\<rparr>"

text \<open>The dict built from \<open>hit\<close>, its four entries evaluated in the order written.\<close>

definition geocode_hit :: "json \<Rightarrow> pyexc + location" where
  "geocode_hit hit =
     and_then (getitem hit ''name'') (\<lambda>n.
     and_then (dict_get hit ''country'' (JStr '''')) (\<lambda>c.
     and_then (getitem hit ''latitude'') (\<lambda>la.
     and_then (getitem hit ''longitude'') (\<lambda>lo.
       Inr \<lparr>name = n, country = c, latitude = la, longitude = lo\<rparr>))))"

text \<open>From \<open>results = data.get("results")\<close> to the \<open>return\<close>; no \<open>try\<close> guards these lines.\<close>

definition geocode_data :: "string \<Rightarrow> json \<Rightarrow> failure + location" where
  "geocode_data city data =
     (case dict_get data ''results'' JNull of
        Inl exc \<Rightarrow> Inl (Uncaught exc)
      | Inr results \<Rightarrow>
          if \<not> truthy results
          then Inl (HTTPException 404 (Text (''City not found: '' @ city)))
          else no_except (and_then (getindex results 0) geocode_hit))"

definition geocode :: "client \<Rightarrow> string \<Rightarrow> (failure + location) \<times> request list" where
  "geocode client city =
     (let req = geocode_request city
      in (case fetch client req of
            Inl f \<Rightarrow> Inl f
          | Inr data \<Rightarrow> geocode_data city data,
          [req]))"

section \<open>weather.py: get_current\<close>

record current_weather =
  temperature_c :: json
  feels_like_c :: json
  humidity_pct :: json
  wind_speed_kmh :: json
  wind_direction_deg :: json
  precipitation_mm :: json
  condition :: string
  weather_code :: json
  observation_time :: json

definition current_request :: "json \<Rightarrow> json \<Rightarrow> request" where
  "current_request lat lon =
     \<lparr>url = FORECAST_URL,
      params = [(''latitude'', lat), (''longitude'', lon), (''current'', JStr CURRENT_VARS)]\<rparr>"

text \<open>The body of the \<open>try\<close>: \<open>cur\<close>, \<open>code\<close>, then the entries of the dict in order.\<close>

definition current_data :: "json \<Rightarrow> pyexc + current_weather" where
  "current_data data =
     and_then (getitem data ''current'') (\<lambda>cur.
     and_then (getitem cur ''weather_code'') (\<lambda>code.
     and_then (getitem cur ''temperature_2m'') (\<lambda>t.
     and_then (getitem cur ''apparent_temperature'') (\<lambda>a.
     and_then (getitem cur ''relative_humidity_2m'') (\<lambda>h.
     and_then (getitem cur ''wind_speed_10m'') (\<lambda>ws.
     and_then (getitem cur ''wind_direction_10m'') (\<lambda>wd.
     and_then (getitem cur ''precipitation'') (\<lambda>p.
     and_then (describe_weather_code code) (\<lambda>c.
     and_then (getitem cur ''time'') (\<lambda>tm.
       Inr \<lparr>temperature_c = t, feels_like_c = a, humidity_pct = h,
            wind_speed_kmh = ws, wind_direction_deg = wd, precipitation_mm = p,
            condition = c, weather_code = code, observation_time = tm\<rparr>))))))))))"

definition get_current ::
  "client \<Rightarrow> json \<Rightarrow> json \<Rightarrow> (failure + current_weather) \<times> request list" where
  "get_current client lat lon =
     (let req = current_request lat lon
      in (case fetch client req of
            Inl f \<Rightarrow> Inl f
          | Inr data \<Rightarrow> except_format (current_data data),
          [req]))"

section \<open>weather.py: get_forecast\<close>

record forecast_day =
  date :: json
  day_condition :: string
  day_weather_code :: json
  temp_max_c :: json
  temp_min_c :: json
  day_precipitation_mm :: json
  precipitation_probability_pct :: json
  wind_max_kmh :: json

definition forecast_request :: "json \<Rightarrow> json \<Rightarrow> int \<Rightarrow> request" where
  "forecast_request lat lon days =
     \<lparr>url = FORECAST_URL,
      params = [(''latitude'', lat), (''longitude'', lon), (''daily'', JStr DAILY_VARS),
                (''forecast_days'', JInt days)]\<rparr>"

text \<open>\<open>daily[key][i]\<close>.\<close>

definition daily_at :: "json \<Rightarrow> string \<Rightarrow> nat \<Rightarrow> pyexc + json" where
  "daily_at daily key i = and_then (getitem daily key) (\<lambda>arr. getindex arr i)"

text \<open>One pass of the loop body at index \<open>i\<close>: the dict appended to \<open>result\<close>.\<close>

definition forecast_entry :: "json \<Rightarrow> nat \<Rightarrow> pyexc + forecast_day" where
  "forecast_entry daily i =
     and_then (daily_at daily ''weather_code'' i) (\<lambda>code.
     and_then (daily_at daily ''time'' i) (\<lambda>d.
     and_then (describe_weather_code code) (\<lambda>c.
     and_then (daily_at daily ''temperature_2m_max'' i) (\<lambda>tmax.
     and_then (daily_at daily ''temperature_2m_min'' i) (\<lambda>tmin.
     and_then (daily_at daily ''precipitation_sum'' i) (\<lambda>p.
     and_then (daily_at daily ''precipitation_probability_max'' i) (\<lambda>pp.
     and_then (daily_at daily ''wind_speed_10m_max'' i) (\<lambda>w.
       Inr \<lparr>date = d, day_condition = c, day_weather_code = code,
            temp_max_c = tmax, temp_min_c = tmin, day_precipitation_mm = p,
            precipitation_probability_pct = pp, wind_max_kmh = w\<rparr>))))))))"

text \<open>
  The \<open>for\<close> loop over the indices still to visit, with \<open>result\<close> as built so far; an
  exception in the body leaves the loop and drops \<open>result\<close>.
\<close>

fun forecast_loop :: "json \<Rightarrow> nat list \<Rightarrow> forecast_day list \<Rightarrow> pyexc + forecast_day list" where
  "forecast_loop daily [] result = Inr result"
| "forecast_loop daily (i # rest) result =
     (case forecast_entry daily i of
        Inl exc \<Rightarrow> Inl exc
      | Inr entry \<Rightarrow> forecast_loop daily rest (result @ [entry]))"

text \<open>The body of the \<open>try\<close>: \<open>range(len(daily["time"]))\<close> is fixed before the loop starts.\<close>

definition forecast_data :: "json \<Rightarrow> pyexc + forecast_day list" where
  "forecast_data data =
     and_then (getitem data ''daily'') (\<lambda>daily.
     and_then (and_then (getitem daily ''time'') py_len) (\<lambda>n.
       forecast_loop daily [0..<n] []))"

definition get_forecast ::
  "client \<Rightarrow> json \<Rightarrow> json \<Rightarrow> int \<Rightarrow> (failure + forecast_day list) \<times> request list" where
  "get_forecast client lat lon days =
     (let req = forecast_request lat lon days
      in (case fetch client req of
            Inl f \<Rightarrow> Inl f
          | Inr data \<Rightarrow> except_format (forecast_data data),
          [req]))"

section \<open>main.py: resolving the location\<close>

text \<open>
  \<open>_resolve_location(city, lat, lon)\<close>. With both coordinates present it returns at once
  and sends nothing; \<open>city or f"{lat},{lon}"\<close> takes the formatted pair when \<open>city\<close> is
  \<open>None\<close> or the empty string, and \<open>if city:\<close> tests the same truth value.
\<close>

definition resolve_location ::
  "client \<Rightarrow> string option \<Rightarrow> pyfloat option \<Rightarrow> pyfloat option \<Rightarrow>
   (failure + json \<times> json \<times> json \<times> json) \<times> request list" where
  "resolve_location client city lat lon =
     (case (lat, lon) of
        (Some la, Some lo) \<Rightarrow>
          (Inr (JStr (case city of
                        None \<Rightarrow> float_str la @ '','' @ float_str lo
                      | Some c \<Rightarrow> if c \<noteq> [] then c else float_str la @ '','' @ float_str lo),
                JStr '''', JFloat la, JFloat lo),
           [])
      | _ \<Rightarrow>
          (case city of
             Some c \<Rightarrow>
               if c \<noteq> []
               then (case geocode client c of
                       (Inl f, sent) \<Rightarrow> (Inl f, sent)
                     | (Inr geo, sent) \<Rightarrow>
                         (Inr (name geo, country geo, latitude geo, longitude geo), sent))
               else (Inl (HTTPException 400
                       (Text ''Provide 'city' or both 'lat' and 'lon' parameters'')), [])
           | None \<Rightarrow>
               (Inl (HTTPException 400
                  (Text ''Provide 'city' or both 'lat' and 'lon' parameters'')), [])))"

section \<open>main.py: configuration and the pricing registry\<close>

text \<open>The two values of the environment that reach the registry and the health route.\<close>

record config =
  EVM_ADDRESS :: string
  NETWORK :: string

definition PRICE :: string where
  "PRICE = ''$0.001''"

record payment_option =
  scheme :: string
  pay_to :: string
  price :: string
  network :: string

definition PAYMENT :: "config \<Rightarrow> payment_option" where
  "PAYMENT cfg =
     \<lparr>scheme = ''exact'', pay_to = EVM_ADDRESS cfg, price = PRICE, network = NETWORK cfg\<rparr>"

text \<open>
  A \<open>RouteConfig\<close>; its \<open>extensions\<close> (the discovery example handed to the payment
  library as it is) are left out.
\<close>

record route_config =
  accepts :: "payment_option list"
  mime_type :: string
  description :: string

definition routes :: "config \<Rightarrow> (string \<times> route_config) list" where
  "routes cfg =
     [(''GET /weather/current'',
       \<lparr>accepts = [PAYMENT cfg],
        mime_type = ''application/json'',
        description =
          ''Get current weather conditions for any city worldwide. '' @
          ''Returns temperature, humidity, wind, precipitation, and condition description. '' @
          ''Specify city name (geocoded automatically) or latitude/longitude coordinates.''\<rparr>),
      (''GET /weather/forecast'',
       \<lparr>accepts = [PAYMENT cfg],
        mime_type = ''application/json'',
        description =
          ''Get daily weather forecast (1-7 days) for any city worldwide. '' @
          ''Returns max/min temperature, precipitation probability, and wind speed per day. '' @
          ''Specify city name or latitude/longitude coordinates.''\<rparr>)]"

section \<open>main.py: the routes\<close>

text \<open>
  An inbound request as the route functions receive it: method and path, the query
  parameters already parsed by the framework (\<open>days\<close> with its default filled in), and the
  payment proof the request carries, if any.
\<close>

record http_request =
  rq_method :: string
  rq_path :: string
  rq_city :: "string option"
  rq_lat :: "pyfloat option"
  rq_lon :: "pyfloat option"
  rq_days :: int
  rq_payment :: "string option"

text \<open>
  Response bodies. The weather bodies carry the arguments given to the response model;
  whether the model accepts them is the validation library's decision and a parameter of
  the route functions below.
\<close>

datatype payload =
    HealthResponse string string string
  | CurrentWeatherResponse "json \<times> json \<times> json \<times> json" current_weather
  | ForecastResponse "json \<times> json \<times> json \<times> json" "forecast_day list"
  | Error_detail detail
  | Internal_error pyexc
  | Payment_required "payment_option list" string string

datatype response = Response (status: int) (body: payload)

text \<open>What happens while a request is served, in order.\<close>

datatype event =
    Handler_called string
  | Upstream_request request
  | Settlement payment_option

definition health_check :: "config \<Rightarrow> payload" where
  "health_check cfg = HealthResponse ''ok'' ''weather-api'' (NETWORK cfg)"

definition weather_current ::
  "(json \<times> json \<times> json \<times> json \<Rightarrow> current_weather \<Rightarrow> bool) \<Rightarrow> client \<Rightarrow>
   string option \<Rightarrow> pyfloat option \<Rightarrow> pyfloat option \<Rightarrow> (failure + payload) \<times> request list" where
  "weather_current accepted client city lat lon =
     (case resolve_location client city lat lon of
        (Inl f, sent) \<Rightarrow> (Inl f, sent)
      | (Inr (city_name, ctry, la, lo), sent) \<Rightarrow>
          (case get_current client la lo of
             (Inl f, sent') \<Rightarrow> (Inl f, sent @ sent')
           | (Inr data, sent') \<Rightarrow>
               (if accepted (city_name, ctry, la, lo) data
                then Inr (CurrentWeatherResponse (city_name, ctry, la, lo) data)
                else Inl (Uncaught OtherException),
                sent @ sent')))"

definition weather_forecast ::
  "(json \<times> json \<times> json \<times> json \<Rightarrow> forecast_day list \<Rightarrow> bool) \<Rightarrow> client \<Rightarrow>
   string option \<Rightarrow> pyfloat option \<Rightarrow> pyfloat option \<Rightarrow> int \<Rightarrow>
   (failure + payload) \<times> request list" where
  "weather_forecast accepted client city lat lon days =
     (case resolve_location client city lat lon of
        (Inl f, sent) \<Rightarrow> (Inl f, sent)
      | (Inr (city_name, ctry, la, lo), sent) \<Rightarrow>
          (case get_forecast client la lo days of
             (Inl f, sent') \<Rightarrow> (Inl f, sent @ sent')
           | (Inr forecast_days, sent') \<Rightarrow>
               (if accepted (city_name, ctry, la, lo) forecast_days
                then Inr (ForecastResponse (city_name, ctry, la, lo) forecast_days)
                else Inl (Uncaught OtherException),
                sent @ sent')))"

text \<open>
  The framework around a route function: a returned model is sent with status 200, an
  \<open>HTTPException\<close> with its own status, any other exception as 500.
\<close>

definition render :: "failure + payload \<Rightarrow> response" where
  "render r =
     (case r of
        Inr p \<Rightarrow> Response 200 p
      | Inl (HTTPException code d) \<Rightarrow> Response code (Error_detail d)
      | Inl (Uncaught exc) \<Rightarrow> Response 500 (Internal_error exc))"

text \<open>
  The application below the middleware: the three routes this file declares. \<open>None\<close>
  stands for a request that none of them matches, which the framework answers by itself.
\<close>

definition app ::
  "(json \<times> json \<times> json \<times> json \<Rightarrow> current_weather \<Rightarrow> bool) \<Rightarrow>
   (json \<times> json \<times> json \<times> json \<Rightarrow> forecast_day list \<Rightarrow> bool) \<Rightarrow>
   config \<Rightarrow> client \<Rightarrow> http_request \<Rightarrow> (response \<times> event list) option" where
  "app accepted_current accepted_forecast cfg client rq =
     (if rq_method rq = ''GET'' \<and> rq_path rq = ''/health''
      then Some (render (Inr (health_check cfg)), [Handler_called ''health_check''])
      else if rq_method rq = ''GET'' \<and> rq_path rq = ''/weather/current''
      then (case weather_current accepted_current client (rq_city rq) (rq_lat rq) (rq_lon rq) of
              (r, sent) \<Rightarrow>
                Some (render r, Handler_called ''weather_current'' # map Upstream_request sent))
      else if rq_method rq = ''GET'' \<and> rq_path rq = ''/weather/forecast''
      then (case weather_forecast accepted_forecast client
                   (rq_city rq) (rq_lat rq) (rq_lon rq) (rq_days rq) of
              (r, sent) \<Rightarrow>
                Some (render r, Handler_called ''weather_forecast'' # map Upstream_request sent))
      else None)"

section \<open>The payment gate\<close>

text \<open>
  Modelled from the spec: the payment middleware \<open>PaymentMiddlewareASGI\<close> that
  \<open>main.py\<close> installs with \<open>app.add_middleware\<close> is not among the source files. The
  spec's section 4.1 gives the three decisions it can take on a request: \<open>Free\<close>,
  \<open>Challenge\<close> with the route's pricing, \<open>Proceed\<close> with the requirement that was met.
\<close>

datatype decision =
    Free
  | Challenge route_config
  | Proceed payment_option

text \<open>
  Modelled from the spec: the registry lookup of section 4.2, missing with the middleware.
  It is an exact match on method and path, with no wildcards; the registry itself is
  \<open>routes\<close> of \<open>main.py\<close>, keyed by method, a blank and the path.
\<close>

definition lookup :: "config \<Rightarrow> string \<Rightarrow> string \<Rightarrow> route_config option" where
  "lookup cfg m p = map_of (routes cfg) (m @ '' '' @ p)"

text \<open>
  Modelled from the spec: \<open>evaluate\<close> of section 4.1, missing with the middleware.
  \<open>Free\<close> when the route has no pricing entry, \<open>Challenge\<close> when the route is priced and
  the request carries no usable proof or verification fails, \<open>Proceed\<close> when at least one
  requirement is satisfied. Verification is the facilitator's and is a parameter; an
  unreachable facilitator counts as a failed verification.
\<close>

definition evaluate ::
  "(string \<Rightarrow> payment_option \<Rightarrow> bool) \<Rightarrow> config \<Rightarrow> http_request \<Rightarrow> decision" where
  "evaluate verify cfg rq =
     (case lookup cfg (rq_method rq) (rq_path rq) of
        None \<Rightarrow> Free
      | Some pricing \<Rightarrow>
          (case rq_payment rq of
             None \<Rightarrow> Challenge pricing
           | Some token \<Rightarrow>
               (case find (verify token) (accepts pricing) of
                  None \<Rightarrow> Challenge pricing
                | Some requirement \<Rightarrow> Proceed requirement)))"

text \<open>
  Modelled from the spec: the middleware's handling of a request (section 4.1), missing
  from the source files. On \<open>Challenge\<close> the gate answers 402 with every requirement of
  the route, its content type and its discovery description, and nothing downstream runs;
  on \<open>Free\<close> it forwards; on \<open>Proceed\<close> it forwards and, once the handler has answered,
  starts settlement of the matched requirement.
\<close>

definition payment_gate ::
  "(string \<Rightarrow> payment_option \<Rightarrow> bool) \<Rightarrow> config \<Rightarrow>
   (http_request \<Rightarrow> (response \<times> event list) option) \<Rightarrow>
   http_request \<Rightarrow> (response \<times> event list) option" where
  "payment_gate verify cfg downstream rq =
     (case evaluate verify cfg rq of
        Free \<Rightarrow> downstream rq
      | Challenge pricing \<Rightarrow>
          Some (Response 402
                  (Payment_required (accepts pricing) (mime_type pricing) (description pricing)),
                [])
      | Proceed requirement \<Rightarrow>
          (case downstream rq of
             None \<Rightarrow> None
           | Some (resp, events) \<Rightarrow> Some (resp, events @ [Settlement requirement])))"

text \<open>
  The served application: \<open>app.add_middleware(PaymentMiddlewareASGI, routes=routes, ...)\<close>
  puts the gate in front of the routes.
\<close>

definition serve ::
  "(string \<Rightarrow> payment_option \<Rightarrow> bool) \<Rightarrow>
   (json \<times> json \<times> json \<times> json \<Rightarrow> current_weather \<Rightarrow> bool) \<Rightarrow>
   (json \<times> json \<times> json \<times> json \<Rightarrow> forecast_day list \<Rightarrow> bool) \<Rightarrow>
   config \<Rightarrow> client \<Rightarrow> http_request \<Rightarrow> (response \<times> event list) option" where
  "serve verify accepted_current accepted_forecast cfg client rq =
     payment_gate verify cfg (app accepted_current accepted_forecast cfg client) rq"

section \<open>Vocabulary of the statements\<close>

text \<open>The exceptions named by the \<open>except\<close> clause of \<open>get_current\<close> and \<open>get_forecast\<close>.\<close>

definition caught :: "pyexc \<Rightarrow> bool" where
  "caught exc = (exc = KeyError \<or> exc = TypeError \<or> exc = IndexError)"

text \<open>
  A call ends within the error taxonomy when it returns a value or raises an
  \<open>HTTPException\<close> whose status is 400, 404, 502 or 504.
\<close>

fun in_taxonomy :: "failure + 'a \<Rightarrow> bool" where
  "in_taxonomy (Inr v) = True"
| "in_taxonomy (Inl (HTTPException code d)) = (code = 400 \<or> code = 404 \<or> code = 502 \<or> code = 504)"
| "in_taxonomy (Inl (Uncaught exc)) = False"

text \<open>The request named a city: \<open>city\<close> is a non-empty string.\<close>

fun city_given :: "string option \<Rightarrow> bool" where
  "city_given None = False"
| "city_given (Some c) = (c \<noteq> [])"

text \<open>A value that can be a dictionary key: anything but a list or a dict.\<close>

fun hashable :: "json \<Rightarrow> bool" where
  "hashable (JList xs) = False"
| "hashable (JDict kvs) = False"
| "hashable JNull = True"
| "hashable (JBool b) = True"
| "hashable (JInt n) = True"
| "hashable (JFloat f) = True"
| "hashable (JStr s) = True"

text \<open>The keys \<open>get_current\<close> reads from \<open>current\<close>.\<close>

definition current_fields :: "string list" where
  "current_fields =
     [''weather_code'', ''temperature_2m'', ''apparent_temperature'', ''relative_humidity_2m'',
      ''wind_speed_10m'', ''wind_direction_10m'', ''precipitation'', ''time'']"

text \<open>The arrays \<open>get_forecast\<close> reads from \<open>daily\<close> beside \<open>time\<close>.\<close>

definition daily_arrays :: "string list" where
  "daily_arrays =
     [''weather_code'', ''temperature_2m_max'', ''temperature_2m_min'', ''precipitation_sum'',
      ''precipitation_probability_max'', ''wind_speed_10m_max'']"

section \<open>Sample upstream bodies\<close>

text \<open>
  The bodies of \<open>tests/test_weather.py\<close> and variants of them, used where a statement is
  evaluated on a concrete response. A float is written with the integer it equals, if any,
  and its text.
\<close>

definition daily_sample :: json where
  "daily_sample =
     JDict
       [(''time'', JList [JStr ''2026-02-21'', JStr ''2026-02-22'', JStr ''2026-02-23'']),
        (''weather_code'', JList [JInt 61, JInt 0, JInt 2]),
        (''temperature_2m_max'',
           JList [JFloat (PyFloat None ''15.2''), JFloat (PyFloat (Some 18) ''18.0''),
                  JFloat (PyFloat None ''16.5'')]),
        (''temperature_2m_min'',
           JList [JFloat (PyFloat None ''8.1''), JFloat (PyFloat None ''9.5''),
                  JFloat (PyFloat None ''7.8'')]),
        (''precipitation_sum'',
           JList [JFloat (PyFloat None ''12.5''), JFloat (PyFloat (Some 0) ''0.0''),
                  JFloat (PyFloat None ''0.2'')]),
        (''precipitation_probability_max'', JList [JInt 85, JInt 5, JInt 20]),
        (''wind_speed_10m_max'',
           JList [JFloat (PyFloat (Some 22) ''22.0''), JFloat (PyFloat (Some 10) ''10.0''),
                  JFloat (PyFloat None ''14.5'')])]"

definition forecast_sample :: json where
  "forecast_sample = JDict [(''daily'', daily_sample)]"

text \<open>Two days in \<open>time\<close>, three elements in every other array.\<close>

definition daily_two_days :: json where
  "daily_two_days =
     JDict
       [(''time'', JList [JStr ''2026-02-21'', JStr ''2026-02-22'']),
        (''weather_code'', JList [JInt 61, JInt 0, JInt 2]),
        (''temperature_2m_max'', JList [JInt 15, JInt 18, JInt 16]),
        (''temperature_2m_min'', JList [JInt 8, JInt 9, JInt 7]),
        (''precipitation_sum'', JList [JInt 12, JInt 0, JInt 1]),
        (''precipitation_probability_max'', JList [JInt 85, JInt 5, JInt 20]),
        (''wind_speed_10m_max'', JList [JInt 22, JInt 10, JInt 14])]"

definition forecast_two_days :: json where
  "forecast_two_days = JDict [(''daily'', daily_two_days)]"

text \<open>Three days in \<open>time\<close>, two weather codes.\<close>

definition daily_short_codes :: json where
  "daily_short_codes =
     JDict
       [(''time'', JList [JStr ''2026-02-21'', JStr ''2026-02-22'', JStr ''2026-02-23'']),
        (''weather_code'', JList [JInt 61, JInt 0]),
        (''temperature_2m_max'', JList [JInt 15, JInt 18, JInt 16]),
        (''temperature_2m_min'', JList [JInt 8, JInt 9, JInt 7]),
        (''precipitation_sum'', JList [JInt 12, JInt 0, JInt 1]),
        (''precipitation_probability_max'', JList [JInt 85, JInt 5, JInt 20]),
        (''wind_speed_10m_max'', JList [JInt 22, JInt 10, JInt 14])]"

definition forecast_short_codes :: json where
  "forecast_short_codes = JDict [(''daily'', daily_short_codes)]"

text \<open>An empty \<open>time\<close> array and no other array at all.\<close>

definition forecast_no_days :: json where
  "forecast_no_days = JDict [(''daily'', JDict [(''time'', JList [])])]"

text \<open>An empty \<open>time\<close> array, empty codes, and the other five arrays missing.\<close>

definition forecast_no_days_codes_only :: json where
  "forecast_no_days_codes_only =
     JDict [(''daily'', JDict [(''time'', JList []), (''weather_code'', JList [])])]"

definition current_sample :: json where
  "current_sample =
     JDict [(''current'', JDict
       [(''temperature_2m'', JFloat (PyFloat None ''12.5'')),
        (''apparent_temperature'', JFloat (PyFloat None ''10.2'')),
        (''relative_humidity_2m'', JInt 65),
        (''wind_speed_10m'', JFloat (PyFloat None ''15.3'')),
        (''wind_direction_10m'', JInt 270),
        (''precipitation'', JFloat (PyFloat (Some 0) ''0.0'')),
        (''weather_code'', JInt 2),
        (''time'', JStr ''2026-02-20T15:00'')])]"

text \<open>The same with a list where the temperature should be.\<close>

definition current_list_temperature :: json where
  "current_list_temperature =
     JDict [(''current'', JDict
       [(''temperature_2m'', JList []),
        (''apparent_temperature'', JFloat (PyFloat None ''10.2'')),
        (''relative_humidity_2m'', JInt 65),
        (''wind_speed_10m'', JFloat (PyFloat None ''15.3'')),
        (''wind_direction_10m'', JInt 270),
        (''precipitation'', JFloat (PyFloat (Some 0) ''0.0'')),
        (''weather_code'', JInt 2),
        (''time'', JStr ''2026-02-20T15:00'')])]"

text \<open>The same without \<open>precipitation\<close>.\<close>

definition current_no_precipitation :: json where
  "current_no_precipitation =
     JDict [(''current'', JDict
       [(''temperature_2m'', JFloat (PyFloat None ''12.5'')),
        (''apparent_temperature'', JFloat (PyFloat None ''10.2'')),
        (''relative_humidity_2m'', JInt 65),
        (''wind_speed_10m'', JFloat (PyFloat None ''15.3'')),
        (''wind_direction_10m'', JInt 270),
        (''weather_code'', JInt 2),
        (''time'', JStr ''2026-02-20T15:00'')])]"

text \<open>One day, with a list where the weather code should be.\<close>

definition daily_list_code :: json where
  "daily_list_code =
     JDict
       [(''time'', JList [JStr ''2026-02-21'']),
        (''weather_code'', JList [JList [JInt 61]]),
        (''temperature_2m_max'', JList [JInt 15]),
        (''temperature_2m_min'', JList [JInt 8]),
        (''precipitation_sum'', JList [JInt 12]),
        (''precipitation_probability_max'', JList [JInt 85]),
        (''wind_speed_10m_max'', JList [JInt 22])]"

definition forecast_list_code :: json where
  "forecast_list_code = JDict [(''daily'', daily_list_code)]"

text \<open>The current sample with a list where the weather code should be.\<close>

definition current_list_code :: json where
  "current_list_code =
     JDict [(''current'', JDict
       [(''temperature_2m'', JFloat (PyFloat None ''12.5'')),
        (''apparent_temperature'', JFloat (PyFloat None ''10.2'')),
        (''relative_humidity_2m'', JInt 65),
        (''wind_speed_10m'', JFloat (PyFloat None ''15.3'')),
        (''wind_direction_10m'', JInt 270),
        (''precipitation'', JFloat (PyFloat (Some 0) ''0.0'')),
        (''weather_code'', JList [JInt 2]),
        (''time'', JStr ''2026-02-20T15:00'')])]"

text \<open>The error body of the malformed-response tests.\<close>

definition error_body :: json where
  "error_body = JDict [(''error'', JBool True), (''reason'', JStr ''bad'')]"

text \<open>
  The requests of \<open>tests/test_api.py\<close>: the two paid routes asked for Tokyo, one without
  any payment proof and one with a proof, and the health route.
\<close>

definition sample_config :: config where
  "sample_config =
     \<lparr>EVM_ADDRESS = ''0x1111111111111111111111111111111111111111'',
      NETWORK = ''eip155:84532''\<rparr>"

definition current_rq :: http_request where
  "current_rq =
     \<lparr>rq_method = ''GET'', rq_path = ''/weather/current'', rq_city = Some ''Tokyo'',
      rq_lat = None, rq_lon = None, rq_days = 3, rq_payment = None\<rparr>"

definition forecast_rq :: http_request where
  "forecast_rq =
     \<lparr>rq_method = ''GET'', rq_path = ''/weather/forecast'', rq_city = Some ''Tokyo'',
      rq_lat = None, rq_lon = None, rq_days = 3, rq_payment = Some ''not-a-payment''\<rparr>"

definition health_rq :: http_request where
  "health_rq =
     \<lparr>rq_method = ''GET'', rq_path = ''/health'', rq_city = None,
      rq_lat = None, rq_lon = None, rq_days = 3, rq_payment = None\<rparr>"

section \<open>Sequencing and the primitive operations\<close>

lemma and_then_Inl [simp]: "and_then (Inl e) f = Inl e"
  by (simp add: and_then_def)

lemma and_then_Inr [simp]: "and_then (Inr v) f = f v"
  by (simp add: and_then_def)

lemma and_then_eq_Inr: "and_then m f = Inr r \<longleftrightarrow> (\<exists>v. m = Inr v \<and> f v = Inr r)"
  by (cases m) simp_all

lemma and_then_eq_Inl: "and_then m f = Inl e \<longleftrightarrow> m = Inl e \<or> (\<exists>v. m = Inr v \<and> f v = Inl e)"
  by (cases m) simp_all

lemma fst_geocode:
  "fst (geocode client city) =
     (case fetch client (geocode_request city) of Inl f \<Rightarrow> Inl f | Inr data \<Rightarrow> geocode_data city data)"
  by (simp add: geocode_def Let_def)

lemma fst_get_current:
  "fst (get_current client lat lon) =
     (case fetch client (current_request lat lon) of
        Inl f \<Rightarrow> Inl f | Inr data \<Rightarrow> except_format (current_data data))"
  by (simp add: get_current_def Let_def)

lemma fst_get_forecast:
  "fst (get_forecast client lat lon days) =
     (case fetch client (forecast_request lat lon days) of
        Inl f \<Rightarrow> Inl f | Inr data \<Rightarrow> except_format (forecast_data data))"
  by (simp add: get_forecast_def Let_def)

lemma fetch_timeout:
  "client req = Raises_TimeoutException \<Longrightarrow>
   fetch client req = Inl (HTTPException 504 (Text ''Weather data source timeout''))"
  by (simp add: fetch_def)

lemma fetch_http_error:
  "client req = Raises_HTTPError \<Longrightarrow>
   fetch client req = Inl (HTTPException 502 (Text ''Weather data source unavailable''))"
  by (simp add: fetch_def)

lemma fetch_status:
  "client req = Responds code b \<Longrightarrow> code \<noteq> 200 \<Longrightarrow>
   fetch client req = Inl (HTTPException 502 (Text ''Weather data source unavailable''))"
  by (simp add: fetch_def)

lemma fetch_undecodable:
  "client req = Responds 200 None \<Longrightarrow> fetch client req = Inl (Uncaught JSONDecodeError)"
  by (simp add: fetch_def)

lemma fetch_json:
  "client req = Responds 200 (Some data) \<Longrightarrow> fetch client req = Inr data"
  by (simp add: fetch_def)

section \<open>The WMO code table\<close>

text \<open>
  C6. For every integer key of the table, \<open>describe_weather_code\<close> returns the string
  the table gives for it; for every integer outside the table it returns
  \<open>Unknown (<code>)\<close> with the decimal text of the code, and it never raises.
\<close>

theorem describe_weather_code_table:
  "describe_weather_code (JInt 0) = Inr ''Clear sky'' \<and>
   describe_weather_code (JInt 1) = Inr ''Mainly clear'' \<and>
   describe_weather_code (JInt 2) = Inr ''Partly cloudy'' \<and>
   describe_weather_code (JInt 3) = Inr ''Overcast'' \<and>
   describe_weather_code (JInt 45) = Inr ''Fog'' \<and>
   describe_weather_code (JInt 48) = Inr ''Depositing rime fog'' \<and>
   describe_weather_code (JInt 51) = Inr ''Light drizzle'' \<and>
   describe_weather_code (JInt 53) = Inr ''Moderate drizzle'' \<and>
   describe_weather_code (JInt 55) = Inr ''Dense drizzle'' \<and>
   describe_weather_code (JInt 56) = Inr ''Light freezing drizzle'' \<and>
   describe_weather_code (JInt 57) = Inr ''Dense freezing drizzle'' \<and>
   describe_weather_code (JInt 61) = Inr ''Slight rain'' \<and>
   describe_weather_code (JInt 63) = Inr ''Moderate rain'' \<and>
   describe_weather_code (JInt 65) = Inr ''Heavy rain'' \<and>
   describe_weather_code (JInt 66) = Inr ''Light freezing rain'' \<and>
   describe_weather_code (JInt 67) = Inr ''Heavy freezing rain'' \<and>
   describe_weather_code (JInt 71) = Inr ''Slight snow fall'' \<and>
   describe_weather_code (JInt 73) = Inr ''Moderate snow fall'' \<and>
   describe_weather_code (JInt 75) = Inr ''Heavy snow fall'' \<and>
   describe_weather_code (JInt 77) = Inr ''Snow grains'' \<and>
   describe_weather_code (JInt 80) = Inr ''Slight rain showers'' \<and>
   describe_weather_code (JInt 81) = Inr ''Moderate rain showers'' \<and>
   describe_weather_code (JInt 82) = Inr ''Violent rain showers'' \<and>
   describe_weather_code (JInt 85) = Inr ''Slight snow showers'' \<and>
   describe_weather_code (JInt 86) = Inr ''Heavy snow showers'' \<and>
   describe_weather_code (JInt 95) = Inr ''Thunderstorm'' \<and>
   describe_weather_code (JInt 96) = Inr ''Thunderstorm with slight hail'' \<and>
   describe_weather_code (JInt 99) = Inr ''Thunderstorm with heavy hail'' \<and>
   (code \<notin> {0, 1, 2, 3, 45, 48, 51, 53, 55, 56, 57, 61, 63, 65, 66, 67, 71, 73, 75, 77,
              80, 81, 82, 85, 86, 95, 96, 99} \<longrightarrow>
    describe_weather_code (JInt code) = Inr (''Unknown ('' @ str_int code @ '')''))"
proof -
  have known: "map_of WMO_CODES k = Some s \<Longrightarrow> describe_weather_code (JInt k) = Inr s" for k s
    by (simp add: wmo_get_def)
  have unknown: "describe_weather_code (JInt code) = Inr (''Unknown ('' @ str_int code @ '')'')"
    if "code \<notin> {0, 1, 2, 3, 45, 48, 51, 53, 55, 56, 57, 61, 63, 65, 66, 67, 71, 73, 75, 77,
              80, 81, 82, 85, 86, 95, 96, 99}"
  proof -
    from that have "code \<notin> fst ` set WMO_CODES"
      by (simp add: WMO_CODES_def)
    then have "map_of WMO_CODES code = None"
      by (simp add: map_of_eq_None_iff)
    then show ?thesis
      by (simp add: wmo_get_def)
  qed
  show ?thesis
    by (intro conjI impI known unknown) (simp_all add: WMO_CODES_def)
qed

theorem describe_weather_code_table_witness:
  "describe_weather_code (JInt 999) = Inr ''Unknown (999)'' \<and>
   describe_weather_code (JInt (- 7)) = Inr ''Unknown (-7)''"
proof -
  have a: "str_int 999 = ''999''" and b: "str_int (- 7) = ''-7''"
    by (simp_all add: str_int_def str_nat.simps)
  show ?thesis
    using describe_weather_code_table [of 999] describe_weather_code_table [of "- 7"]
    by (simp add: a b)
qed

section \<open>Transport failures\<close>

text \<open>
  C3. In \<open>geocode\<close>, \<open>get_current\<close> and \<open>get_forecast\<close> a timeout of the outbound
  call ends in \<open>HTTPException\<close> 504, another transport error or a status other than 200
  in \<open>HTTPException\<close> 502; the two are different failures and nothing is left uncaught.
\<close>

theorem upstream_failures_map_to_504_and_502:
  "(client (geocode_request city) = Raises_TimeoutException \<longrightarrow>
      fst (geocode client city) = Inl (HTTPException 504 (Text ''Weather data source timeout''))) \<and>
   (client (geocode_request city) = Raises_HTTPError \<longrightarrow>
      fst (geocode client city) = Inl (HTTPException 502 (Text ''Weather data source unavailable''))) \<and>
   (client (geocode_request city) = Responds code b \<and> code \<noteq> 200 \<longrightarrow>
      fst (geocode client city) = Inl (HTTPException 502 (Text ''Weather data source unavailable''))) \<and>
   (client (current_request lat lon) = Raises_TimeoutException \<longrightarrow>
      fst (get_current client lat lon) =
        Inl (HTTPException 504 (Text ''Weather data source timeout''))) \<and>
   (client (current_request lat lon) = Raises_HTTPError \<longrightarrow>
      fst (get_current client lat lon) =
        Inl (HTTPException 502 (Text ''Weather data source unavailable''))) \<and>
   (client (current_request lat lon) = Responds code b \<and> code \<noteq> 200 \<longrightarrow>
      fst (get_current client lat lon) =
        Inl (HTTPException 502 (Text ''Weather data source unavailable''))) \<and>
   (client (forecast_request lat lon days) = Raises_TimeoutException \<longrightarrow>
      fst (get_forecast client lat lon days) =
        Inl (HTTPException 504 (Text ''Weather data source timeout''))) \<and>
   (client (forecast_request lat lon days) = Raises_HTTPError \<longrightarrow>
      fst (get_forecast client lat lon days) =
        Inl (HTTPException 502 (Text ''Weather data source unavailable''))) \<and>
   (client (forecast_request lat lon days) = Responds code b \<and> code \<noteq> 200 \<longrightarrow>
      fst (get_forecast client lat lon days) =
        Inl (HTTPException 502 (Text ''Weather data source unavailable''))) \<and>
   HTTPException 504 d \<noteq> HTTPException 502 d'"
  by (simp add: fst_geocode fst_get_current fst_get_forecast fetch_timeout fetch_http_error
      fetch_status)

theorem upstream_failures_map_to_504_and_502_witness:
  "fst (geocode (\<lambda>r. Raises_TimeoutException) ''Tokyo'') =
     Inl (HTTPException 504 (Text ''Weather data source timeout'')) \<and>
   fst (get_current (\<lambda>r. Raises_TimeoutException) (JInt 35) (JInt 139)) =
     Inl (HTTPException 504 (Text ''Weather data source timeout'')) \<and>
   fst (get_forecast (\<lambda>r. Raises_TimeoutException) (JInt 35) (JInt 139) 3) =
     Inl (HTTPException 504 (Text ''Weather data source timeout'')) \<and>
   fst (geocode (\<lambda>r. Raises_HTTPError) ''Tokyo'') =
     Inl (HTTPException 502 (Text ''Weather data source unavailable'')) \<and>
   fst (get_current (\<lambda>r. Raises_HTTPError) (JInt 35) (JInt 139)) =
     Inl (HTTPException 502 (Text ''Weather data source unavailable'')) \<and>
   fst (get_forecast (\<lambda>r. Raises_HTTPError) (JInt 35) (JInt 139) 3) =
     Inl (HTTPException 502 (Text ''Weather data source unavailable'')) \<and>
   fst (geocode (\<lambda>r. Responds 500 (Some (JDict []))) ''Tokyo'') =
     Inl (HTTPException 502 (Text ''Weather data source unavailable'')) \<and>
   fst (get_current (\<lambda>r. Responds 500 (Some (JDict []))) (JInt 35) (JInt 139)) =
     Inl (HTTPException 502 (Text ''Weather data source unavailable'')) \<and>
   fst (get_forecast (\<lambda>r. Responds 500 (Some (JDict []))) (JInt 35) (JInt 139) 3) =
     Inl (HTTPException 502 (Text ''Weather data source unavailable''))"
  using
    upstream_failures_map_to_504_and_502
      [of "\<lambda>r. Raises_TimeoutException" "''Tokyo''" 500 "Some (JDict [])" "JInt 35" "JInt 139" 3]
    upstream_failures_map_to_504_and_502
      [of "\<lambda>r. Raises_HTTPError" "''Tokyo''" 500 "Some (JDict [])" "JInt 35" "JInt 139" 3]
    upstream_failures_map_to_504_and_502
      [of "\<lambda>r. Responds 500 (Some (JDict []))" "''Tokyo''" 500 "Some (JDict [])"
          "JInt 35" "JInt 139" 3]
  by simp

section \<open>Geocoding\<close>

lemma geocode_data_not_found:
  "map_of kvs ''results'' = None \<or> map_of kvs ''results'' = Some JNull \<or>
   map_of kvs ''results'' = Some (JList []) \<Longrightarrow>
   geocode_data city (JDict kvs) = Inl (HTTPException 404 (Text (''City not found: '' @ city)))"
  by (auto simp: geocode_data_def)

lemma getindex_0_Inr:
  "truthy results \<Longrightarrow> getindex results 0 = Inr hit \<Longrightarrow>
   (\<exists>xs. results = JList (hit # xs)) \<or> (\<exists>c s. results = JStr (c # s) \<and> hit = JStr [c])"
  by (cases results) (auto simp: neq_Nil_conv split: if_splits)

lemma geocode_hit_Inr:
  "geocode_hit hit = Inr loc \<Longrightarrow>
   \<exists>hkvs. hit = JDict hkvs \<and> map_of hkvs ''name'' = Some (name loc) \<and>
     map_of hkvs ''latitude'' = Some (latitude loc) \<and>
     map_of hkvs ''longitude'' = Some (longitude loc)"
  by (cases hit) (auto simp: geocode_hit_def and_then_eq_Inr split: option.splits)

lemma geocode_data_Inr:
  assumes "geocode_data city data = Inr loc"
  shows "\<exists>kvs hit others. data = JDict kvs \<and> map_of kvs ''results'' = Some (JList (hit # others))"
proof -
  from assms obtain results where r: "dict_get data ''results'' JNull = Inr results"
    and t: "truthy results"
    and h: "no_except (and_then (getindex results 0) geocode_hit) = Inr loc"
    by (auto simp: geocode_data_def split: sum.splits if_splits)
  from h obtain hit where i: "getindex results 0 = Inr hit" and g: "geocode_hit hit = Inr loc"
    by (auto simp: no_except_def and_then_eq_Inr split: sum.splits)
  from geocode_hit_Inr [OF g] obtain hkvs where "hit = JDict hkvs" by blast
  with getindex_0_Inr [OF t i] obtain others where l: "results = JList (hit # others)" by auto
  from r obtain kvs where d: "data = JDict kvs"
    by (cases data) auto
  with r l have "map_of kvs ''results'' = Some (JList (hit # others))"
    by (auto split: option.splits)
  with d show ?thesis by blast
qed

lemma geocode_data_hit:
  assumes "map_of kvs ''results'' = Some (JList (JDict hkvs # others))"
  shows "geocode_data city (JDict kvs) = no_except (geocode_hit (JDict hkvs))"
  using assms by (simp add: geocode_data_def)

lemma fetch_Inr: "fetch client req = Inr data \<Longrightarrow> client req = Responds 200 (Some data)"
  by (auto simp: fetch_def split: http_outcome.splits if_splits option.splits)

text \<open>
  C5. When a 200 geocoding response is a JSON object whose \<open>results\<close> entry is an empty
  list, is null, or is missing, \<open>geocode\<close> raises \<open>HTTPException\<close> 404; and whenever
  \<open>geocode\<close> returns a location, the response was a 200 object whose \<open>results\<close> is a
  non-empty list.
\<close>

theorem geocode_not_found_when_no_results:
  "(client (geocode_request city) = Responds 200 (Some (JDict kvs)) \<and>
    (map_of kvs ''results'' = None \<or> map_of kvs ''results'' = Some JNull \<or>
     map_of kvs ''results'' = Some (JList [])) \<longrightarrow>
      fst (geocode client city) = Inl (HTTPException 404 (Text (''City not found: '' @ city)))) \<and>
   (fst (geocode client city) = Inr loc \<longrightarrow>
      (\<exists>body hit others. client (geocode_request city) = Responds 200 (Some (JDict body)) \<and>
         map_of body ''results'' = Some (JList (hit # others))))"
proof (intro conjI impI)
  assume "client (geocode_request city) = Responds 200 (Some (JDict kvs)) \<and>
    (map_of kvs ''results'' = None \<or> map_of kvs ''results'' = Some JNull \<or>
     map_of kvs ''results'' = Some (JList []))"
  then show "fst (geocode client city) =
      Inl (HTTPException 404 (Text (''City not found: '' @ city)))"
    by (simp add: fst_geocode fetch_json geocode_data_not_found)
next
  assume ok: "fst (geocode client city) = Inr loc"
  then obtain data where f: "fetch client (geocode_request city) = Inr data"
    and g: "geocode_data city data = Inr loc"
    by (auto simp: fst_geocode split: sum.splits)
  from geocode_data_Inr [OF g] obtain body hit others where
    "data = JDict body" "map_of body ''results'' = Some (JList (hit # others))" by blast
  with fetch_Inr [OF f]
  show "\<exists>body hit others. client (geocode_request city) = Responds 200 (Some (JDict body)) \<and>
         map_of body ''results'' = Some (JList (hit # others))"
    by blast
qed

theorem geocode_not_found_when_no_results_witness:
  "fst (geocode (\<lambda>r. Responds 200 (Some (JDict []))) ''Empty'') =
     Inl (HTTPException 404 (Text ''City not found: Empty'')) \<and>
   fst (geocode (\<lambda>r. Responds 200 (Some (JDict [(''results'', JNull)]))) ''Nowhere'') =
     Inl (HTTPException 404 (Text ''City not found: Nowhere'')) \<and>
   fst (geocode (\<lambda>r. Responds 200 (Some (JDict [(''results'', JList [])]))) ''Nowhere'') =
     Inl (HTTPException 404 (Text ''City not found: Nowhere'')) \<and>
   (\<exists>body hit others.
      Responds 200 (Some (JDict [(''results'', JList [JDict [(''name'', JStr ''Tokyo''),
         (''country'', JStr ''Japan''), (''latitude'', JInt 35), (''longitude'', JInt 139)]])]))
        = Responds 200 (Some (JDict body)) \<and>
      map_of body ''results'' = Some (JList (hit # others)))"
proof -
  let ?ok = "\<lambda>r::request. Responds 200 (Some (JDict [(''results'', JList [JDict [(''name'', JStr ''Tokyo''),
         (''country'', JStr ''Japan''), (''latitude'', JInt 35), (''longitude'', JInt 139)]])]))"
  have ok: "fst (geocode ?ok ''Tokyo'') =
      Inr \<lparr>name = JStr ''Tokyo'', country = JStr ''Japan'', latitude = JInt 35, longitude = JInt 139\<rparr>"
    by (simp add: fst_geocode fetch_def geocode_data_def no_except_def geocode_hit_def)
  show ?thesis
    using
      geocode_not_found_when_no_results [of "\<lambda>r. Responds 200 (Some (JDict []))" "''Empty''" "[]"]
      geocode_not_found_when_no_results
        [of "\<lambda>r. Responds 200 (Some (JDict [(''results'', JNull)]))" "''Nowhere''"
            "[(''results'', JNull)]"]
      geocode_not_found_when_no_results
        [of "\<lambda>r. Responds 200 (Some (JDict [(''results'', JList [])]))" "''Nowhere''"
            "[(''results'', JList [])]"]
      geocode_not_found_when_no_results [of ?ok "''Tokyo''" "[]"
        "\<lparr>name = JStr ''Tokyo'', country = JStr ''Japan'', latitude = JInt 35, longitude = JInt 139\<rparr>"]
      ok
    by simp
qed

text \<open>
  C10. When the first entry of a non-empty \<open>results\<close> list carries \<open>name\<close>,
  \<open>latitude\<close> and \<open>longitude\<close> but no \<open>country\<close>, \<open>geocode\<close> returns the location
  with the empty string as its country. Country is the only field defaulted: when
  \<open>name\<close>, \<open>latitude\<close> or \<open>longitude\<close> is missing from the entry, the call fails with
  the \<open>KeyError\<close> of the lookup.
\<close>

theorem geocode_defaults_only_country:
  "(client (geocode_request city) = Responds 200 (Some (JDict kvs)) \<and>
    map_of kvs ''results'' = Some (JList (JDict hkvs # others)) \<and>
    map_of hkvs ''name'' = Some n \<and> map_of hkvs ''latitude'' = Some la \<and>
    map_of hkvs ''longitude'' = Some lo \<and> map_of hkvs ''country'' = None \<longrightarrow>
      fst (geocode client city) =
        Inr \<lparr>name = n, country = JStr '''', latitude = la, longitude = lo\<rparr>) \<and>
   (client (geocode_request city) = Responds 200 (Some (JDict kvs)) \<and>
    map_of kvs ''results'' = Some (JList (JDict hkvs # others)) \<and>
    (map_of hkvs ''name'' = None \<or> map_of hkvs ''latitude'' = None \<or>
     map_of hkvs ''longitude'' = None) \<longrightarrow>
      fst (geocode client city) = Inl (Uncaught KeyError))"
  by (auto simp: fst_geocode fetch_json geocode_data_hit geocode_hit_def no_except_def
      split: option.splits)

theorem geocode_defaults_only_country_witness:
  "fst (geocode (\<lambda>r. Responds 200 (Some (JDict [(''results'', JList [JDict [(''name'', JStr ''Tokyo''),
         (''latitude'', JInt 35), (''longitude'', JInt 139)]])]))) ''Tokyo'') =
     Inr \<lparr>name = JStr ''Tokyo'', country = JStr '''', latitude = JInt 35, longitude = JInt 139\<rparr> \<and>
   fst (geocode (\<lambda>r. Responds 200 (Some (JDict [(''results'', JList [JDict [(''name'', JStr ''Tokyo''),
         (''longitude'', JInt 139)]])]))) ''Tokyo'') = Inl (Uncaught KeyError)"
  using
    geocode_defaults_only_country
      [of "\<lambda>r. Responds 200 (Some (JDict [(''results'', JList [JDict [(''name'', JStr ''Tokyo''),
         (''latitude'', JInt 35), (''longitude'', JInt 139)]])]))" "''Tokyo''"
         "[(''results'', JList [JDict [(''name'', JStr ''Tokyo''),
         (''latitude'', JInt 35), (''longitude'', JInt 139)]])]"
         "[(''name'', JStr ''Tokyo''), (''latitude'', JInt 35), (''longitude'', JInt 139)]" "[]"
         "JStr ''Tokyo''" "JInt 35" "JInt 139"]
    geocode_defaults_only_country
      [of "\<lambda>r. Responds 200 (Some (JDict [(''results'', JList [JDict [(''name'', JStr ''Tokyo''),
         (''longitude'', JInt 139)]])]))" "''Tokyo''"
         "[(''results'', JList [JDict [(''name'', JStr ''Tokyo''), (''longitude'', JInt 139)]])]"
         "[(''name'', JStr ''Tokyo''), (''longitude'', JInt 139)]" "[]"]
  by simp

section \<open>Resolving the location\<close>

text \<open>
  C8. With both coordinates supplied, \<open>_resolve_location\<close> returns the city name if one
  was given and otherwise the text \<open>lat,lon\<close>, the empty country and the two coordinates,
  and sends no request. With a coordinate missing and a city name given, it returns what
  \<open>geocode\<close> returns for that name (its four fields, or its failure, and the request it
  sent). With a coordinate missing and no city name, it raises \<open>HTTPException\<close> 400.
  A city name is given when \<open>city\<close> is a non-empty string, which is what the source tests.
\<close>

theorem resolve_location_cases:
  "resolve_location client city (Some la) (Some lo) =
     (Inr (JStr (if city_given city then the city else float_str la @ '','' @ float_str lo),
           JStr '''', JFloat la, JFloat lo),
      []) \<and>
   ((lat = None \<or> lon = None) \<and> city = Some c \<and> c \<noteq> [] \<longrightarrow>
      resolve_location client city lat lon =
        (case fst (geocode client c) of
           Inl f \<Rightarrow> Inl f
         | Inr geo \<Rightarrow> Inr (name geo, country geo, latitude geo, longitude geo),
         snd (geocode client c))) \<and>
   ((lat = None \<or> lon = None) \<and> \<not> city_given city \<longrightarrow>
      resolve_location client city lat lon =
        (Inl (HTTPException 400 (Text ''Provide 'city' or both 'lat' and 'lon' parameters'')),
         []))"
proof (intro conjI impI)
  show "resolve_location client city (Some la) (Some lo) =
     (Inr (JStr (if city_given city then the city else float_str la @ '','' @ float_str lo),
           JStr '''', JFloat la, JFloat lo),
      [])"
    by (cases city) (simp_all add: resolve_location_def)
next
  assume a: "(lat = None \<or> lon = None) \<and> city = Some c \<and> c \<noteq> []"
  obtain r sent where g: "geocode client c = (r, sent)"
    by (cases "geocode client c")
  from a g show "resolve_location client city lat lon =
        (case fst (geocode client c) of
           Inl f \<Rightarrow> Inl f
         | Inr geo \<Rightarrow> Inr (name geo, country geo, latitude geo, longitude geo),
         snd (geocode client c))"
    by (cases lat; cases lon; cases r) (simp_all add: resolve_location_def)
next
  assume a: "(lat = None \<or> lon = None) \<and> \<not> city_given city"
  then show "resolve_location client city lat lon =
        (Inl (HTTPException 400 (Text ''Provide 'city' or both 'lat' and 'lon' parameters'')),
         [])"
    by (cases lat; cases lon; cases city) (simp_all add: resolve_location_def)
qed

theorem resolve_location_cases_witness:
  "resolve_location (\<lambda>r. Raises_HTTPError) None
      (Some (PyFloat None ''35.5'')) (Some (PyFloat (Some 139) ''139.0'')) =
     (Inr (JStr ''35.5,139.0'', JStr '''', JFloat (PyFloat None ''35.5''),
           JFloat (PyFloat (Some 139) ''139.0'')), []) \<and>
   resolve_location (\<lambda>r. Raises_HTTPError) (Some ''Tokyo'') None
      (Some (PyFloat (Some 139) ''139.0'')) =
     (Inl (HTTPException 502 (Text ''Weather data source unavailable'')),
      [geocode_request ''Tokyo'']) \<and>
   resolve_location (\<lambda>r. Raises_HTTPError) (Some '''') (Some (PyFloat None ''35.5'')) None =
     (Inl (HTTPException 400 (Text ''Provide 'city' or both 'lat' and 'lon' parameters'')), [])"
proof -
  have g: "geocode (\<lambda>r. Raises_HTTPError) ''Tokyo'' =
      (Inl (HTTPException 502 (Text ''Weather data source unavailable'')),
       [geocode_request ''Tokyo''])"
    by (simp add: geocode_def Let_def fetch_def)
  show ?thesis
    using
      resolve_location_cases [of "\<lambda>r. Raises_HTTPError" None "PyFloat None ''35.5''"
        "PyFloat (Some 139) ''139.0''" None None "''x''"]
      resolve_location_cases [of "\<lambda>r. Raises_HTTPError" "Some ''Tokyo''" "PyFloat None ''35.5''"
        "PyFloat (Some 139) ''139.0''" None "Some (PyFloat (Some 139) ''139.0'')" "''Tokyo''"]
      resolve_location_cases [of "\<lambda>r. Raises_HTTPError" "Some ''''" "PyFloat None ''35.5''"
        "PyFloat (Some 139) ''139.0''" "Some (PyFloat None ''35.5'')" None "''x''"]
    by (simp add: g)
qed

section \<open>What the guarded blocks can raise\<close>

lemma getitem_raises: "getitem x k = Inl e \<Longrightarrow> caught e"
  by (cases x) (auto simp: caught_def split: option.splits)

lemma getindex_raises: "getindex x i = Inl e \<Longrightarrow> caught e"
  by (cases x) (auto simp: caught_def split: if_splits)

lemma py_len_raises: "py_len x = Inl e \<Longrightarrow> caught e"
  by (cases x) (auto simp: caught_def)

lemma describe_raises: "describe_weather_code x = Inl e \<Longrightarrow> caught e"
  by (cases x) (auto simp: caught_def)

lemma describe_hashable: "hashable x \<Longrightarrow> describe_weather_code x = Inr (projr (describe_weather_code x))"
  by (cases x) simp_all

lemma daily_at_raises: "daily_at daily k i = Inl e \<Longrightarrow> caught e"
  unfolding daily_at_def and_then_eq_Inl
  by (auto dest: getitem_raises getindex_raises)

lemma forecast_entry_raises: "forecast_entry daily i = Inl e \<Longrightarrow> caught e"
  unfolding forecast_entry_def and_then_eq_Inl
  by (auto dest: daily_at_raises describe_raises)

lemma current_data_raises: "current_data data = Inl e \<Longrightarrow> caught e"
  unfolding current_data_def and_then_eq_Inl
  by (auto dest: getitem_raises describe_raises)

lemma forecast_loop_raises: "forecast_loop daily idx acc = Inl e \<Longrightarrow> caught e"
  by (induction idx arbitrary: acc) (auto split: sum.splits dest: forecast_entry_raises)

lemma forecast_data_raises: "forecast_data data = Inl e \<Longrightarrow> caught e"
  unfolding forecast_data_def and_then_eq_Inl
  by (auto dest: getitem_raises py_len_raises forecast_loop_raises)

lemma except_format_caught:
  "caught e \<Longrightarrow> except_format (Inl e) = Inl (HTTPException 502 (Unexpected_format e))"
  by (simp add: except_format_def caught_def)

lemma except_format_Inr [simp]: "except_format (Inr v) = Inr v"
  by (simp add: except_format_def)

lemma except_format_eq_Inr: "except_format r = Inr v \<longleftrightarrow> r = Inr v"
  by (cases r) (simp_all add: except_format_def)

lemma current_failure_502:
  "current_data data = Inl e \<Longrightarrow>
   except_format (current_data data) = Inl (HTTPException 502 (Unexpected_format e))"
  by (simp add: current_data_raises except_format_caught)

lemma forecast_failure_502:
  "forecast_data data = Inl e \<Longrightarrow>
   except_format (forecast_data data) = Inl (HTTPException 502 (Unexpected_format e))"
  by (simp add: forecast_data_raises except_format_caught)

section \<open>The forecast loop\<close>

lemma forecast_entry_Inr:
  "forecast_entry daily i = Inr d \<longleftrightarrow>
     daily_at daily ''weather_code'' i = Inr (day_weather_code d) \<and>
     daily_at daily ''time'' i = Inr (date d) \<and>
     describe_weather_code (day_weather_code d) = Inr (day_condition d) \<and>
     daily_at daily ''temperature_2m_max'' i = Inr (temp_max_c d) \<and>
     daily_at daily ''temperature_2m_min'' i = Inr (temp_min_c d) \<and>
     daily_at daily ''precipitation_sum'' i = Inr (day_precipitation_mm d) \<and>
     daily_at daily ''precipitation_probability_max'' i = Inr (precipitation_probability_pct d) \<and>
     daily_at daily ''wind_speed_10m_max'' i = Inr (wind_max_kmh d)"
  unfolding forecast_entry_def and_then_eq_Inr
  by (cases d) auto

lemma forecast_loop_Inr:
  "forecast_loop daily idx acc = Inr rows \<longleftrightarrow>
     (\<exists>ds. rows = acc @ ds \<and> list_all2 (\<lambda>i d. forecast_entry daily i = Inr d) idx ds)"
proof (induction idx arbitrary: acc)
  case Nil
  then show ?case by auto
next
  case (Cons i rest)
  show ?case
  proof (cases "forecast_entry daily i")
    case (Inl e)
    then show ?thesis by (auto simp: list_all2_Cons1)
  next
    case (Inr d)
    then show ?thesis by (auto simp: Cons.IH list_all2_Cons1)
  qed
qed

lemma forecast_loop_upt:
  "forecast_loop daily [0..<n] [] = Inr rows \<longleftrightarrow>
     length rows = n \<and> (\<forall>i<n. forecast_entry daily i = Inr (rows ! i))"
  by (auto simp: forecast_loop_Inr list_all2_conv_all_nth)

lemma forecast_data_Inr:
  "forecast_data data = Inr rows \<longleftrightarrow>
     (\<exists>daily t. getitem data ''daily'' = Inr daily \<and> getitem daily ''time'' = Inr t \<and>
        py_len t = Inr (length rows) \<and>
        (\<forall>i<length rows. forecast_entry daily i = Inr (rows ! i)))"
  unfolding forecast_data_def and_then_eq_Inr forecast_loop_upt
  by auto

lemma forecast_data_fails:
  assumes "getitem data ''daily'' = Inr daily" "getitem daily ''time'' = Inr t"
    "py_len t = Inr n" "i < n" "isl (forecast_entry daily i)"
  shows "\<exists>e. forecast_data data = Inl e"
proof (cases "forecast_data data")
  case (Inl e)
  then show ?thesis by blast
next
  case (Inr rows)
  with assms have "forecast_entry daily i = Inr (rows ! i)"
    by (auto simp: forecast_data_Inr)
  with assms(5) show ?thesis by simp
qed

lemma daily_at_list:
  "getitem daily k = Inr (JList xs) \<Longrightarrow>
   daily_at daily k i = (if i < length xs then Inr (xs ! i) else Inl IndexError)"
  by (simp add: daily_at_def)

lemma forecast_entry_needs:
  "k \<in> set daily_arrays \<or> k = ''time'' \<Longrightarrow> isl (daily_at daily k i) \<Longrightarrow>
   isl (forecast_entry daily i)"
proof (rule ccontr)
  assume k: "k \<in> set daily_arrays \<or> k = ''time''" and f: "isl (daily_at daily k i)"
    and "\<not> isl (forecast_entry daily i)"
  then obtain d where d: "forecast_entry daily i = Inr d"
    by (cases "forecast_entry daily i") auto
  from k f forecast_entry_Inr [THEN iffD1, OF d] show False
    by (auto simp: daily_arrays_def)
qed

lemma daily_at_missing: "isl (getitem daily k) \<Longrightarrow> isl (daily_at daily k i)"
  by (cases "getitem daily k") (simp_all add: daily_at_def)

section \<open>The forecast result\<close>

lemma forecast_data_lists:
  assumes "getitem data ''daily'' = Inr daily"
    and "getitem daily ''time'' = Inr (JList ts)"
    and "getitem daily ''weather_code'' = Inr (JList cs)" "length ts \<le> length cs"
    and "getitem daily ''temperature_2m_max'' = Inr (JList hi)" "length ts \<le> length hi"
    and "getitem daily ''temperature_2m_min'' = Inr (JList lo)" "length ts \<le> length lo"
    and "getitem daily ''precipitation_sum'' = Inr (JList ps)" "length ts \<le> length ps"
    and "getitem daily ''precipitation_probability_max'' = Inr (JList pp)" "length ts \<le> length pp"
    and "getitem daily ''wind_speed_10m_max'' = Inr (JList ws)" "length ts \<le> length ws"
    and "\<forall>i<length ts. hashable (cs ! i)"
  shows "forecast_data data =
     Inr (map (\<lambda>i. \<lparr>date = ts ! i,
                     day_condition = projr (describe_weather_code (cs ! i)),
                     day_weather_code = cs ! i,
                     temp_max_c = hi ! i, temp_min_c = lo ! i,
                     day_precipitation_mm = ps ! i,
                     precipitation_probability_pct = pp ! i,
                     wind_max_kmh = ws ! i\<rparr>) [0..<length ts])"
proof -
  have "forecast_entry daily i = Inr \<lparr>date = ts ! i,
                     day_condition = projr (describe_weather_code (cs ! i)),
                     day_weather_code = cs ! i,
                     temp_max_c = hi ! i, temp_min_c = lo ! i,
                     day_precipitation_mm = ps ! i,
                     precipitation_probability_pct = pp ! i,
                     wind_max_kmh = ws ! i\<rparr>" if "i < length ts" for i
  proof -
    from that assms(15) have "hashable (cs ! i)" by simp
    then have "describe_weather_code (cs ! i) = Inr (projr (describe_weather_code (cs ! i)))"
      by (rule describe_hashable)
    with that assms show ?thesis
      by (simp add: forecast_entry_Inr daily_at_list)
  qed
  with assms(1,2) show ?thesis
    by (simp add: forecast_data_Inr)
qed

lemma snd_get_forecast: "snd (get_forecast client lat lon days) = [forecast_request lat lon days]"
  by (simp add: get_forecast_def Let_def)

lemma get_forecast_200:
  "client (forecast_request lat lon days) = Responds 200 (Some data) \<Longrightarrow>
   fst (get_forecast client lat lon days) = except_format (forecast_data data)"
  by (simp add: fst_get_forecast fetch_json)

lemma get_current_200:
  "client (current_request lat lon) = Responds 200 (Some data) \<Longrightarrow>
   fst (get_current client lat lon) = except_format (current_data data)"
  by (simp add: fst_get_current fetch_json)

lemma forecast_data_arrays:
  assumes d: "getitem data ''daily'' = Inr daily"
    and t: "getitem daily ''time'' = Inr (JList ts)"
    and a: "\<forall>k\<in>set daily_arrays. \<exists>xs. getitem daily k = Inr (JList xs) \<and> length ts \<le> length xs"
    and h: "\<forall>cs. getitem daily ''weather_code'' = Inr (JList cs) \<longrightarrow>
              (\<forall>i<length ts. hashable (cs ! i))"
  shows "\<exists>rows. forecast_data data = Inr rows \<and> length rows = length ts"
proof -
  from a obtain cs where cs: "getitem daily ''weather_code'' = Inr (JList cs)" "length ts \<le> length cs"
    by (auto simp: daily_arrays_def)
  from a obtain hi where hi: "getitem daily ''temperature_2m_max'' = Inr (JList hi)" "length ts \<le> length hi"
    by (auto simp: daily_arrays_def)
  from a obtain lo where lo: "getitem daily ''temperature_2m_min'' = Inr (JList lo)" "length ts \<le> length lo"
    by (auto simp: daily_arrays_def)
  from a obtain ps where ps: "getitem daily ''precipitation_sum'' = Inr (JList ps)" "length ts \<le> length ps"
    by (auto simp: daily_arrays_def)
  from a obtain pp where pp: "getitem daily ''precipitation_probability_max'' = Inr (JList pp)" "length ts \<le> length pp"
    by (auto simp: daily_arrays_def)
  from a obtain ws where ws: "getitem daily ''wind_speed_10m_max'' = Inr (JList ws)" "length ts \<le> length ws"
    by (auto simp: daily_arrays_def)
  from h cs have "\<forall>i<length ts. hashable (cs ! i)" by blast
  from forecast_data_lists [OF d t cs hi lo ps pp ws this] show ?thesis
    by simp
qed

lemma forecast_data_short_array:
  assumes d: "getitem data ''daily'' = Inr daily"
    and t: "getitem daily ''time'' = Inr (JList ts)"
    and k: "k \<in> set daily_arrays" "getitem daily k = Inr (JList xs)" "length xs < length ts"
  shows "\<exists>e. forecast_data data = Inl e"
proof -
  from k(2) have "isl (daily_at daily k (length xs))"
    by (simp add: daily_at_list)
  with k(1) have "isl (forecast_entry daily (length xs))"
    by (auto intro: forecast_entry_needs)
  with d t k(3) show ?thesis
    by (auto intro: forecast_data_fails [where t = "JList ts" and i = "length xs"])
qed

text \<open>
  C9. The number of entries \<open>get_forecast\<close> returns is the length of the upstream
  \<open>time\<close> array, whatever \<open>days\<close> was: \<open>days\<close> only enters the request sent, and two
  calls whose requests get the same answer give the same result. Where the other arrays
  are at least as long as \<open>time\<close> (and the codes used are hashable), the call returns one
  entry per element of \<open>time\<close>; where one of them is shorter, the call fails with
  \<open>HTTPException\<close> 502.
\<close>

theorem forecast_length_follows_time_array:
  "(client (forecast_request lat lon days) = Responds 200 (Some data) \<and>
    fst (get_forecast client lat lon days) = Inr rows \<longrightarrow>
      (\<exists>daily t. getitem data ''daily'' = Inr daily \<and> getitem daily ''time'' = Inr t \<and>
         py_len t = Inr (length rows))) \<and>
   snd (get_forecast client lat lon days) = [forecast_request lat lon days] \<and>
   (client (forecast_request lat lon days) = client' (forecast_request lat lon days') \<longrightarrow>
      fst (get_forecast client lat lon days) = fst (get_forecast client' lat lon days')) \<and>
   (client (forecast_request lat lon days) = Responds 200 (Some data) \<and>
    getitem data ''daily'' = Inr daily \<and> getitem daily ''time'' = Inr (JList ts) \<and>
    (\<forall>k\<in>set daily_arrays. \<exists>xs. getitem daily k = Inr (JList xs) \<and> length ts \<le> length xs) \<and>
    (\<forall>cs. getitem daily ''weather_code'' = Inr (JList cs) \<longrightarrow>
       (\<forall>i<length ts. hashable (cs ! i))) \<longrightarrow>
      (\<exists>out. fst (get_forecast client lat lon days) = Inr out \<and> length out = length ts)) \<and>
   (client (forecast_request lat lon days) = Responds 200 (Some data) \<and>
    getitem data ''daily'' = Inr daily \<and> getitem daily ''time'' = Inr (JList ts) \<and>
    k \<in> set daily_arrays \<and> getitem daily k = Inr (JList xs) \<and> length xs < length ts \<longrightarrow>
      (\<exists>e. fst (get_forecast client lat lon days) =
              Inl (HTTPException 502 (Unexpected_format e))))"
proof (intro conjI impI)
  assume "client (forecast_request lat lon days) = Responds 200 (Some data) \<and>
    fst (get_forecast client lat lon days) = Inr rows"
  then have "forecast_data data = Inr rows"
    using get_forecast_200 [of client lat lon days data] by (metis except_format_eq_Inr)
  then show "\<exists>daily t. getitem data ''daily'' = Inr daily \<and> getitem daily ''time'' = Inr t \<and>
         py_len t = Inr (length rows)"
    by (auto simp: forecast_data_Inr)
next
  show "snd (get_forecast client lat lon days) = [forecast_request lat lon days]"
    by (rule snd_get_forecast)
next
  assume "client (forecast_request lat lon days) = client' (forecast_request lat lon days')"
  then show "fst (get_forecast client lat lon days) = fst (get_forecast client' lat lon days')"
    by (simp add: fst_get_forecast fetch_def)
next
  assume a: "client (forecast_request lat lon days) = Responds 200 (Some data) \<and>
    getitem data ''daily'' = Inr daily \<and> getitem daily ''time'' = Inr (JList ts) \<and>
    (\<forall>k\<in>set daily_arrays. \<exists>xs. getitem daily k = Inr (JList xs) \<and> length ts \<le> length xs) \<and>
    (\<forall>cs. getitem daily ''weather_code'' = Inr (JList cs) \<longrightarrow>
       (\<forall>i<length ts. hashable (cs ! i)))"
  then have "\<exists>out. forecast_data data = Inr out \<and> length out = length ts"
    by (intro forecast_data_arrays) blast+
  with a show "\<exists>out. fst (get_forecast client lat lon days) = Inr out \<and> length out = length ts"
    using get_forecast_200 [of client lat lon days data] by auto
next
  assume a: "client (forecast_request lat lon days) = Responds 200 (Some data) \<and>
    getitem data ''daily'' = Inr daily \<and> getitem daily ''time'' = Inr (JList ts) \<and>
    k \<in> set daily_arrays \<and> getitem daily k = Inr (JList xs) \<and> length xs < length ts"
  then have "\<exists>e. forecast_data data = Inl e"
    by (intro forecast_data_short_array [where k = k and xs = xs and ts = ts]) blast+
  then obtain e where "forecast_data data = Inl e" ..
  then have "except_format (forecast_data data) = Inl (HTTPException 502 (Unexpected_format e))"
    by (rule forecast_failure_502)
  moreover from a have "fst (get_forecast client lat lon days) = except_format (forecast_data data)"
    by (intro get_forecast_200) blast
  ultimately show "\<exists>e. fst (get_forecast client lat lon days) =
              Inl (HTTPException 502 (Unexpected_format e))"
    by auto
qed

theorem forecast_length_follows_time_array_witness:
  "(\<exists>daily t. getitem forecast_two_days ''daily'' = Inr daily \<and> getitem daily ''time'' = Inr t \<and>
      py_len t = Inr 2) \<and>
   fst (get_forecast (\<lambda>r. Responds 200 (Some forecast_two_days)) (JInt 35) (JInt 139) 3) =
     fst (get_forecast (\<lambda>r. Responds 200 (Some forecast_two_days)) (JInt 35) (JInt 139) 7) \<and>
   (\<exists>out. fst (get_forecast (\<lambda>r. Responds 200 (Some forecast_two_days)) (JInt 35) (JInt 139) 3) =
      Inr out \<and> length out = 2) \<and>
   (\<exists>e. fst (get_forecast (\<lambda>r. Responds 200 (Some forecast_short_codes)) (JInt 35) (JInt 139) 3) =
      Inl (HTTPException 502 (Unexpected_format e)))"
proof -
  let ?c = "\<lambda>r::request. Responds 200 (Some forecast_two_days)"
  let ?s = "\<lambda>r::request. Responds 200 (Some forecast_short_codes)"
  let ?rows = "[\<lparr>date = JStr ''2026-02-21'', day_condition = ''Slight rain'', day_weather_code = JInt 61,
           temp_max_c = JInt 15, temp_min_c = JInt 8, day_precipitation_mm = JInt 12,
           precipitation_probability_pct = JInt 85, wind_max_kmh = JInt 22\<rparr>,
          \<lparr>date = JStr ''2026-02-22'', day_condition = ''Clear sky'', day_weather_code = JInt 0,
           temp_max_c = JInt 18, temp_min_c = JInt 9, day_precipitation_mm = JInt 0,
           precipitation_probability_pct = JInt 5, wind_max_kmh = JInt 10\<rparr>]"
  let ?ts = "[JStr ''2026-02-21'', JStr ''2026-02-22'']"
  let ?ts3 = "[JStr ''2026-02-21'', JStr ''2026-02-22'', JStr ''2026-02-23'']"
  have run: "fst (get_forecast ?c (JInt 35) (JInt 139) 3) = Inr ?rows"
    by code_simp
  have d: "getitem forecast_two_days ''daily'' = Inr daily_two_days"
    by (simp add: forecast_two_days_def)
  have t: "getitem daily_two_days ''time'' = Inr (JList ?ts)"
    by (simp add: daily_two_days_def)
  have a: "\<forall>k\<in>set daily_arrays. \<exists>xs. getitem daily_two_days k = Inr (JList xs) \<and>
             length ?ts \<le> length xs"
    by (simp add: daily_arrays_def daily_two_days_def)
  have h: "\<forall>cs. getitem daily_two_days ''weather_code'' = Inr (JList cs) \<longrightarrow>
             (\<forall>i<length ?ts. hashable (cs ! i))"
    by (auto simp: daily_two_days_def less_Suc_eq)
  have d': "getitem forecast_short_codes ''daily'' = Inr daily_short_codes"
    by (simp add: forecast_short_codes_def)
  have t': "getitem daily_short_codes ''time'' = Inr (JList ?ts3)"
    by (simp add: daily_short_codes_def)
  have k': "''weather_code'' \<in> set daily_arrays"
    "getitem daily_short_codes ''weather_code'' = Inr (JList [JInt 61, JInt 0])"
    by (simp_all add: daily_arrays_def daily_short_codes_def)
  note two = forecast_length_follows_time_array
    [where client = ?c and client' = ?c and lat = "JInt 35" and lon = "JInt 139" and days = 3
       and days' = 7 and data = forecast_two_days and rows = ?rows
       and daily = daily_two_days and ts = ?ts and k = "''weather_code''" and xs = "[]"]
  note short = forecast_length_follows_time_array
    [where client = ?s and client' = ?s and lat = "JInt 35" and lon = "JInt 139" and days = 3
       and days' = 7 and data = forecast_short_codes and rows = "[]"
       and daily = daily_short_codes and ts = ?ts3 and k = "''weather_code''"
       and xs = "[JInt 61, JInt 0]"]
  have run_ok: "?c (forecast_request (JInt 35) (JInt 139) 3) = Responds 200 (Some forecast_two_days)"
    and short_ok:
      "?s (forecast_request (JInt 35) (JInt 139) 3) = Responds 200 (Some forecast_short_codes)"
    by simp_all
  from two [THEN conjunct1] run_ok run
  have "\<exists>daily t. getitem forecast_two_days ''daily'' = Inr daily \<and>
      getitem daily ''time'' = Inr t \<and> py_len t = Inr 2"
    by (simp add: numeral_2_eq_2)
  moreover from two [THEN conjunct2, THEN conjunct2, THEN conjunct1]
  have "fst (get_forecast ?c (JInt 35) (JInt 139) 3) =
      fst (get_forecast ?c (JInt 35) (JInt 139) 7)"
    by simp
  moreover from two [THEN conjunct2, THEN conjunct2, THEN conjunct2, THEN conjunct1] run_ok d t a h
  have "\<exists>out. fst (get_forecast ?c (JInt 35) (JInt 139) 3) = Inr out \<and> length out = 2"
    by (simp add: numeral_2_eq_2)
  moreover from short [THEN conjunct2, THEN conjunct2, THEN conjunct2, THEN conjunct2]
    short_ok d' t' k'
  have "\<exists>e. fst (get_forecast ?s (JInt 35) (JInt 139) 3) =
      Inl (HTTPException 502 (Unexpected_format e))"
    by simp
  ultimately show ?thesis by blast
qed

lemma get_forecast_502:
  assumes "client (forecast_request lat lon days) = Responds 200 (Some data)"
    and "\<exists>e. forecast_data data = Inl e"
  shows "\<exists>e. fst (get_forecast client lat lon days) =
           Inl (HTTPException 502 (Unexpected_format e))"
proof -
  from assms(2) obtain e where "forecast_data data = Inl e" ..
  then have "except_format (forecast_data data) = Inl (HTTPException 502 (Unexpected_format e))"
    by (rule forecast_failure_502)
  with get_forecast_200 [of client lat lon days data] assms(1) show ?thesis by auto
qed

lemma forecast_data_no_daily: "isl (getitem data ''daily'') \<Longrightarrow> \<exists>e. forecast_data data = Inl e"
  by (cases "getitem data ''daily''") (simp_all add: forecast_data_def)

lemma forecast_data_no_time:
  "getitem data ''daily'' = Inr daily \<Longrightarrow> isl (getitem daily ''time'') \<Longrightarrow>
   \<exists>e. forecast_data data = Inl e"
  by (cases "getitem daily ''time''") (simp_all add: forecast_data_def)

lemma describe_unhashable: "\<not> hashable c \<Longrightarrow> describe_weather_code c = Inl TypeError"
  by (cases c) simp_all

lemma forecast_entry_unhashable:
  assumes "daily_at daily ''weather_code'' i = Inr c" "\<not> hashable c"
  shows "isl (forecast_entry daily i)"
proof (cases "forecast_entry daily i")
  case (Inl e)
  then show ?thesis by simp
next
  case (Inr d)
  with assms(1) have "describe_weather_code c = Inr (day_condition d)"
    by (auto simp: forecast_entry_Inr)
  with describe_unhashable [OF assms(2)] show ?thesis by simp
qed

lemma forecast_entry_succeeds:
  assumes a: "\<forall>k\<in>set (''time'' # daily_arrays). \<not> isl (daily_at daily k i)"
    and h: "\<forall>c. daily_at daily ''weather_code'' i = Inr c \<longrightarrow> hashable c"
  shows "\<exists>d. forecast_entry daily i = Inr d"
proof -
  have v: "\<exists>v. daily_at daily k i = Inr v" if "k \<in> set (''time'' # daily_arrays)" for k
    using a that by (cases "daily_at daily k i") auto
  from v [of "''weather_code''"] obtain c where c: "daily_at daily ''weather_code'' i = Inr c"
    by (auto simp: daily_arrays_def)
  from v [of "''time''"] obtain d where d: "daily_at daily ''time'' i = Inr d"
    by auto
  from v [of "''temperature_2m_max''"] obtain hi where hi: "daily_at daily ''temperature_2m_max'' i = Inr hi"
    by (auto simp: daily_arrays_def)
  from v [of "''temperature_2m_min''"] obtain lo where lo: "daily_at daily ''temperature_2m_min'' i = Inr lo"
    by (auto simp: daily_arrays_def)
  from v [of "''precipitation_sum''"] obtain ps where ps: "daily_at daily ''precipitation_sum'' i = Inr ps"
    by (auto simp: daily_arrays_def)
  from v [of "''precipitation_probability_max''"] obtain pp
    where pp: "daily_at daily ''precipitation_probability_max'' i = Inr pp"
    by (auto simp: daily_arrays_def)
  from v [of "''wind_speed_10m_max''"] obtain ws where ws: "daily_at daily ''wind_speed_10m_max'' i = Inr ws"
    by (auto simp: daily_arrays_def)
  from h c have "hashable c" by blast
  then obtain s where "describe_weather_code c = Inr s"
    by (cases c) simp_all
  with c d hi lo ps pp ws show ?thesis
    by (simp add: forecast_entry_def)
qed

lemma forecast_data_succeeds:
  assumes d: "getitem data ''daily'' = Inr daily" and t: "getitem daily ''time'' = Inr t"
    and n: "py_len t = Inr n"
    and a: "\<forall>i<n. \<forall>k\<in>set (''time'' # daily_arrays). \<not> isl (daily_at daily k i)"
    and h: "\<forall>i<n. \<forall>c. daily_at daily ''weather_code'' i = Inr c \<longrightarrow> hashable c"
  shows "\<exists>rows. forecast_data data = Inr rows \<and> length rows = n"
proof -
  let ?rows = "map (\<lambda>i. projr (forecast_entry daily i)) [0..<n]"
  have "forecast_entry daily i = Inr (?rows ! i)" if "i < n" for i
  proof -
    from a h that obtain e where "forecast_entry daily i = Inr e"
      using forecast_entry_succeeds [of daily i] by blast
    with that show ?thesis by simp
  qed
  with d t n have "forecast_data data = Inr ?rows"
    by (simp add: forecast_data_Inr)
  then show ?thesis by auto
qed

lemma forecast_data_empty:
  "getitem data ''daily'' = Inr daily \<Longrightarrow> getitem daily ''time'' = Inr t \<Longrightarrow>
   py_len t = Inr 0 \<Longrightarrow> forecast_data data = Inr []"
  by (simp add: forecast_data_def)

lemma forecast_data_no_len:
  "getitem data ''daily'' = Inr daily \<Longrightarrow> getitem daily ''time'' = Inr t \<Longrightarrow>
   isl (py_len t) \<Longrightarrow> \<exists>e. forecast_data data = Inl e"
  by (cases "py_len t") (simp_all add: forecast_data_def)

lemma get_forecast_entry_fails:
  assumes "client (forecast_request lat lon days) = Responds 200 (Some data)"
    and "getitem data ''daily'' = Inr daily" "getitem daily ''time'' = Inr t"
    and "py_len t = Inr n" "i < n" "isl (forecast_entry daily i)"
  shows "\<exists>e. fst (get_forecast client lat lon days) =
           Inl (HTTPException 502 (Unexpected_format e))"
  using assms(1) forecast_data_fails [OF assms(2-6)] by (rule get_forecast_502)

lemma get_forecast_returns:
  assumes "client (forecast_request lat lon days) = Responds 200 (Some data)"
  shows "fst (get_forecast client lat lon days) = Inr rows \<longleftrightarrow> forecast_data data = Inr rows"
  using get_forecast_200 [of client lat lon days data] assms
  by (simp add: except_format_eq_Inr)

text \<open>
  C7, as amended. When \<open>daily\<close> supplies lists of one length \<open>n\<close> for \<open>time\<close> and the six
  other arrays and the weather codes are hashable (anything but a list or an object),
  \<open>get_forecast\<close> returns exactly \<open>n\<close> entries in the order of \<open>time\<close>, entry \<open>i\<close> built
  from element \<open>i\<close> of every array and its condition from its own weather code. The call
  fails with \<open>HTTPException\<close> 502 when the weather code at a position below the length
  of \<open>time\<close> is a list or an object, when \<open>daily\<close> or \<open>time\<close> is absent, when \<open>time\<close>
  is not empty and one of the other arrays is absent, and when a lookup
  \<open>daily[key][i]\<close> fails at a position below the length of \<open>time\<close>. A returned list is
  never partial: it has one entry for every position of \<open>time\<close>. When \<open>time\<close> is empty
  the call returns the empty list, whatever the other arrays are: they are not read.
\<close>

theorem forecast_rows_in_order_or_failure:
  "(client (forecast_request lat lon days) = Responds 200 (Some data) \<and>
    getitem data ''daily'' = Inr daily \<and>
    getitem daily ''time'' = Inr (JList ts) \<and>
    getitem daily ''weather_code'' = Inr (JList cs) \<and> length cs = length ts \<and>
    getitem daily ''temperature_2m_max'' = Inr (JList hi) \<and> length hi = length ts \<and>
    getitem daily ''temperature_2m_min'' = Inr (JList lo) \<and> length lo = length ts \<and>
    getitem daily ''precipitation_sum'' = Inr (JList ps) \<and> length ps = length ts \<and>
    getitem daily ''precipitation_probability_max'' = Inr (JList pp) \<and> length pp = length ts \<and>
    getitem daily ''wind_speed_10m_max'' = Inr (JList ws) \<and> length ws = length ts \<and>
    (\<forall>i<length ts. hashable (cs ! i)) \<longrightarrow>
      fst (get_forecast client lat lon days) =
        Inr (map (\<lambda>i. \<lparr>date = ts ! i,
                        day_condition = projr (describe_weather_code (cs ! i)),
                        day_weather_code = cs ! i,
                        temp_max_c = hi ! i, temp_min_c = lo ! i,
                        day_precipitation_mm = ps ! i,
                        precipitation_probability_pct = pp ! i,
                        wind_max_kmh = ws ! i\<rparr>) [0..<length ts])) \<and>
   (client (forecast_request lat lon days) = Responds 200 (Some data) \<and>
    getitem data ''daily'' = Inr daily \<and> getitem daily ''time'' = Inr t \<and>
    py_len t = Inr n \<and> i < n \<and> daily_at daily ''weather_code'' i = Inr c \<and>
    \<not> hashable c \<longrightarrow>
      (\<exists>e. fst (get_forecast client lat lon days) =
              Inl (HTTPException 502 (Unexpected_format e)))) \<and>
   (client (forecast_request lat lon days) = Responds 200 (Some data) \<and>
    isl (getitem data ''daily'') \<longrightarrow>
      (\<exists>e. fst (get_forecast client lat lon days) =
              Inl (HTTPException 502 (Unexpected_format e)))) \<and>
   (client (forecast_request lat lon days) = Responds 200 (Some data) \<and>
    getitem data ''daily'' = Inr daily \<and> isl (getitem daily ''time'') \<longrightarrow>
      (\<exists>e. fst (get_forecast client lat lon days) =
              Inl (HTTPException 502 (Unexpected_format e)))) \<and>
   (client (forecast_request lat lon days) = Responds 200 (Some data) \<and>
    getitem data ''daily'' = Inr daily \<and> getitem daily ''time'' = Inr t \<and>
    py_len t = Inr n \<and> 0 < n \<and> k \<in> set daily_arrays \<and> isl (getitem daily k) \<longrightarrow>
      (\<exists>e. fst (get_forecast client lat lon days) =
              Inl (HTTPException 502 (Unexpected_format e)))) \<and>
   (client (forecast_request lat lon days) = Responds 200 (Some data) \<and>
    getitem data ''daily'' = Inr daily \<and> getitem daily ''time'' = Inr t \<and>
    py_len t = Inr n \<and> i < n \<and> (k \<in> set daily_arrays \<or> k = ''time'') \<and>
    isl (daily_at daily k i) \<longrightarrow>
      (\<exists>e. fst (get_forecast client lat lon days) =
              Inl (HTTPException 502 (Unexpected_format e)))) \<and>
   (client (forecast_request lat lon days) = Responds 200 (Some data) \<and>
    fst (get_forecast client lat lon days) = Inr rows \<longrightarrow>
      (\<exists>daily t. getitem data ''daily'' = Inr daily \<and> getitem daily ''time'' = Inr t \<and>
         py_len t = Inr (length rows) \<and>
         (\<forall>i<length rows. forecast_entry daily i = Inr (rows ! i)))) \<and>
   (client (forecast_request lat lon days) = Responds 200 (Some data) \<and>
    getitem data ''daily'' = Inr daily \<and> getitem daily ''time'' = Inr t \<and>
    py_len t = Inr 0 \<longrightarrow>
      fst (get_forecast client lat lon days) = Inr [])"
proof (intro conjI impI)
  assume a: "client (forecast_request lat lon days) = Responds 200 (Some data) \<and>
    getitem data ''daily'' = Inr daily \<and>
    getitem daily ''time'' = Inr (JList ts) \<and>
    getitem daily ''weather_code'' = Inr (JList cs) \<and> length cs = length ts \<and>
    getitem daily ''temperature_2m_max'' = Inr (JList hi) \<and> length hi = length ts \<and>
    getitem daily ''temperature_2m_min'' = Inr (JList lo) \<and> length lo = length ts \<and>
    getitem daily ''precipitation_sum'' = Inr (JList ps) \<and> length ps = length ts \<and>
    getitem daily ''precipitation_probability_max'' = Inr (JList pp) \<and> length pp = length ts \<and>
    getitem daily ''wind_speed_10m_max'' = Inr (JList ws) \<and> length ws = length ts \<and>
    (\<forall>i<length ts. hashable (cs ! i))"
  then have "forecast_data data =
        Inr (map (\<lambda>i. \<lparr>date = ts ! i,
                        day_condition = projr (describe_weather_code (cs ! i)),
                        day_weather_code = cs ! i,
                        temp_max_c = hi ! i, temp_min_c = lo ! i,
                        day_precipitation_mm = ps ! i,
                        precipitation_probability_pct = pp ! i,
                        wind_max_kmh = ws ! i\<rparr>) [0..<length ts])"
    by (intro forecast_data_lists [where daily = daily]) simp_all
  moreover from a have "fst (get_forecast client lat lon days) = except_format (forecast_data data)"
    by (intro get_forecast_200) blast
  ultimately show "fst (get_forecast client lat lon days) =
        Inr (map (\<lambda>i. \<lparr>date = ts ! i,
                        day_condition = projr (describe_weather_code (cs ! i)),
                        day_weather_code = cs ! i,
                        temp_max_c = hi ! i, temp_min_c = lo ! i,
                        day_precipitation_mm = ps ! i,
                        precipitation_probability_pct = pp ! i,
                        wind_max_kmh = ws ! i\<rparr>) [0..<length ts])"
    by simp
next
  assume a: "client (forecast_request lat lon days) = Responds 200 (Some data) \<and>
    getitem data ''daily'' = Inr daily \<and> getitem daily ''time'' = Inr t \<and>
    py_len t = Inr n \<and> i < n \<and> daily_at daily ''weather_code'' i = Inr c \<and>
    \<not> hashable c"
  then have "isl (forecast_entry daily i)"
    by (intro forecast_entry_unhashable [where c = c]) blast+
  with a show "\<exists>e. fst (get_forecast client lat lon days) =
              Inl (HTTPException 502 (Unexpected_format e))"
    by (intro get_forecast_entry_fails [where data = data and daily = daily and t = t and n = n
          and i = i]) blast+
next
  assume a: "client (forecast_request lat lon days) = Responds 200 (Some data) \<and>
    isl (getitem data ''daily'')"
  then show "\<exists>e. fst (get_forecast client lat lon days) =
              Inl (HTTPException 502 (Unexpected_format e))"
    by (intro get_forecast_502 [where data = data] forecast_data_no_daily) blast+
next
  assume a: "client (forecast_request lat lon days) = Responds 200 (Some data) \<and>
    getitem data ''daily'' = Inr daily \<and> isl (getitem daily ''time'')"
  then show "\<exists>e. fst (get_forecast client lat lon days) =
              Inl (HTTPException 502 (Unexpected_format e))"
    by (intro get_forecast_502 [where data = data] forecast_data_no_time [where daily = daily])
      blast+
next
  assume a: "client (forecast_request lat lon days) = Responds 200 (Some data) \<and>
    getitem data ''daily'' = Inr daily \<and> getitem daily ''time'' = Inr t \<and>
    py_len t = Inr n \<and> 0 < n \<and> k \<in> set daily_arrays \<and> isl (getitem daily k)"
  then have "isl (forecast_entry daily 0)"
    by (intro forecast_entry_needs [where k = k] daily_at_missing) blast+
  with a show "\<exists>e. fst (get_forecast client lat lon days) =
              Inl (HTTPException 502 (Unexpected_format e))"
    by (intro get_forecast_entry_fails [where data = data and daily = daily and t = t and n = n
          and i = 0]) blast+
next
  assume a: "client (forecast_request lat lon days) = Responds 200 (Some data) \<and>
    getitem data ''daily'' = Inr daily \<and> getitem daily ''time'' = Inr t \<and>
    py_len t = Inr n \<and> i < n \<and> (k \<in> set daily_arrays \<or> k = ''time'') \<and>
    isl (daily_at daily k i)"
  then have "isl (forecast_entry daily i)"
    by (intro forecast_entry_needs [where k = k]) blast+
  with a show "\<exists>e. fst (get_forecast client lat lon days) =
              Inl (HTTPException 502 (Unexpected_format e))"
    by (intro get_forecast_entry_fails [where data = data and daily = daily and t = t and n = n
          and i = i]) blast+
next
  assume a: "client (forecast_request lat lon days) = Responds 200 (Some data) \<and>
    fst (get_forecast client lat lon days) = Inr rows"
  then have "forecast_data data = Inr rows"
    using get_forecast_returns [of client lat lon days data rows] by blast
  then show "\<exists>daily t. getitem data ''daily'' = Inr daily \<and> getitem daily ''time'' = Inr t \<and>
         py_len t = Inr (length rows) \<and>
         (\<forall>i<length rows. forecast_entry daily i = Inr (rows ! i))"
    by (simp add: forecast_data_Inr)
next
  assume a: "client (forecast_request lat lon days) = Responds 200 (Some data) \<and>
    getitem data ''daily'' = Inr daily \<and> getitem daily ''time'' = Inr t \<and>
    py_len t = Inr 0"
  then have "forecast_data data = Inr []"
    by (intro forecast_data_empty [where daily = daily and t = t]) blast+
  with a show "fst (get_forecast client lat lon days) = Inr []"
    using get_forecast_returns [of client lat lon days data "[]"] by blast
qed

text \<open>
  The claim as first stated fails where \<open>time\<close> is empty (the arrays are absent and the
  call returns the empty list) and where an array of the right length holds a list as
  weather code (the call fails).
\<close>

theorem forecast_missing_arrays_counterexample:
  "getitem forecast_no_days ''daily'' = Inr (JDict [(''time'', JList [])]) \<and>
   getitem (JDict [(''time'', JList [])]) ''weather_code'' = Inl KeyError \<and>
   fst (get_forecast (\<lambda>r. Responds 200 (Some forecast_no_days)) (JInt 35) (JInt 139) 3) = Inr [] \<and>
   fst (get_forecast (\<lambda>r. Responds 200 (Some forecast_list_code)) (JInt 35) (JInt 139) 1) =
     Inl (HTTPException 502 (Unexpected_format TypeError))"
  by code_simp

theorem forecast_rows_in_order_or_failure_witness:
  "fst (get_forecast (\<lambda>r. Responds 200 (Some forecast_sample)) (JInt 35) (JInt 139) 3) =
     Inr [\<lparr>date = JStr ''2026-02-21'', day_condition = ''Slight rain'', day_weather_code = JInt 61,
           temp_max_c = JFloat (PyFloat None ''15.2''), temp_min_c = JFloat (PyFloat None ''8.1''),
           day_precipitation_mm = JFloat (PyFloat None ''12.5''),
           precipitation_probability_pct = JInt 85,
           wind_max_kmh = JFloat (PyFloat (Some 22) ''22.0'')\<rparr>,
          \<lparr>date = JStr ''2026-02-22'', day_condition = ''Clear sky'', day_weather_code = JInt 0,
           temp_max_c = JFloat (PyFloat (Some 18) ''18.0''),
           temp_min_c = JFloat (PyFloat None ''9.5''),
           day_precipitation_mm = JFloat (PyFloat (Some 0) ''0.0''),
           precipitation_probability_pct = JInt 5,
           wind_max_kmh = JFloat (PyFloat (Some 10) ''10.0'')\<rparr>,
          \<lparr>date = JStr ''2026-02-23'', day_condition = ''Partly cloudy'', day_weather_code = JInt 2,
           temp_max_c = JFloat (PyFloat None ''16.5''), temp_min_c = JFloat (PyFloat None ''7.8''),
           day_precipitation_mm = JFloat (PyFloat None ''0.2''),
           precipitation_probability_pct = JInt 20,
           wind_max_kmh = JFloat (PyFloat None ''14.5'')\<rparr>] \<and>
   (\<exists>e. fst (get_forecast (\<lambda>r. Responds 200 (Some forecast_list_code)) (JInt 35) (JInt 139) 1) =
      Inl (HTTPException 502 (Unexpected_format e))) \<and>
   (\<exists>e. fst (get_forecast (\<lambda>r. Responds 200 (Some error_body)) (JInt 35) (JInt 139) 3) =
      Inl (HTTPException 502 (Unexpected_format e))) \<and>
   (\<exists>e. fst (get_forecast (\<lambda>r. Responds 200 (Some (JDict [(''daily'', JDict [])]))) (JInt 35) (JInt 139) 3) =
      Inl (HTTPException 502 (Unexpected_format e))) \<and>
   (\<exists>e. fst (get_forecast (\<lambda>r. Responds 200 (Some (JDict [(''daily'', JDict [(''time'', JList [JStr ''2026-02-21''])])]))) (JInt 35) (JInt 139) 3) =
      Inl (HTTPException 502 (Unexpected_format e))) \<and>
   (\<exists>e. fst (get_forecast (\<lambda>r. Responds 200 (Some forecast_short_codes)) (JInt 35) (JInt 139) 3) =
      Inl (HTTPException 502 (Unexpected_format e))) \<and>
   (\<exists>daily t. getitem forecast_two_days ''daily'' = Inr daily \<and> getitem daily ''time'' = Inr t \<and>
      py_len t = Inr 2) \<and>
   fst (get_forecast (\<lambda>r. Responds 200 (Some forecast_no_days)) (JInt 35) (JInt 139) 3) = Inr []"
proof -
  note main = forecast_rows_in_order_or_failure
  let ?ts = "[JStr ''2026-02-21'', JStr ''2026-02-22'', JStr ''2026-02-23'']"
  have d: "getitem forecast_sample ''daily'' = Inr daily_sample"
    by (simp add: forecast_sample_def)
  have h: "\<forall>i<length ?ts. hashable ([JInt 61, JInt 0, JInt 2] ! i)"
    by (auto simp: less_Suc_eq)
  from main
    [where client = "\<lambda>r. Responds 200 (Some forecast_sample)" and lat = "JInt 35" and lon = "JInt 139"
       and days = 3 and data = forecast_sample and daily = daily_sample and ts = ?ts
       and cs = "[JInt 61, JInt 0, JInt 2]"
       and hi = "[JFloat (PyFloat None ''15.2''), JFloat (PyFloat (Some 18) ''18.0''),
                  JFloat (PyFloat None ''16.5'')]"
       and lo = "[JFloat (PyFloat None ''8.1''), JFloat (PyFloat None ''9.5''),
                  JFloat (PyFloat None ''7.8'')]"
       and ps = "[JFloat (PyFloat None ''12.5''), JFloat (PyFloat (Some 0) ''0.0''),
                  JFloat (PyFloat None ''0.2'')]"
       and pp = "[JInt 85, JInt 5, JInt 20]"
       and ws = "[JFloat (PyFloat (Some 22) ''22.0''), JFloat (PyFloat (Some 10) ''10.0''),
                  JFloat (PyFloat None ''14.5'')]",
     THEN conjunct1] d h
  have w1: "fst (get_forecast (\<lambda>r. Responds 200 (Some forecast_sample)) (JInt 35) (JInt 139) 3) =
     Inr [\<lparr>date = JStr ''2026-02-21'', day_condition = ''Slight rain'', day_weather_code = JInt 61,
           temp_max_c = JFloat (PyFloat None ''15.2''), temp_min_c = JFloat (PyFloat None ''8.1''),
           day_precipitation_mm = JFloat (PyFloat None ''12.5''),
           precipitation_probability_pct = JInt 85,
           wind_max_kmh = JFloat (PyFloat (Some 22) ''22.0'')\<rparr>,
          \<lparr>date = JStr ''2026-02-22'', day_condition = ''Clear sky'', day_weather_code = JInt 0,
           temp_max_c = JFloat (PyFloat (Some 18) ''18.0''),
           temp_min_c = JFloat (PyFloat None ''9.5''),
           day_precipitation_mm = JFloat (PyFloat (Some 0) ''0.0''),
           precipitation_probability_pct = JInt 5,
           wind_max_kmh = JFloat (PyFloat (Some 10) ''10.0'')\<rparr>,
          \<lparr>date = JStr ''2026-02-23'', day_condition = ''Partly cloudy'', day_weather_code = JInt 2,
           temp_max_c = JFloat (PyFloat None ''16.5''), temp_min_c = JFloat (PyFloat None ''7.8''),
           day_precipitation_mm = JFloat (PyFloat None ''0.2''),
           precipitation_probability_pct = JInt 20,
           wind_max_kmh = JFloat (PyFloat None ''14.5'')\<rparr>]"
    by (simp add: daily_sample_def wmo_get_def WMO_CODES_def)
  have d2: "getitem forecast_list_code ''daily'' = Inr daily_list_code"
    by (simp add: forecast_list_code_def)
  have t2: "getitem daily_list_code ''time'' = Inr (JList [JStr ''2026-02-21''])"
    and c2: "daily_at daily_list_code ''weather_code'' 0 = Inr (JList [JInt 61])"
    by (simp_all add: daily_list_code_def daily_at_def)
  from main
    [where client = "\<lambda>r. Responds 200 (Some forecast_list_code)" and lat = "JInt 35" and lon = "JInt 139"
       and days = 1 and data = forecast_list_code and daily = daily_list_code
       and t = "JList [JStr ''2026-02-21'']" and n = 1 and i = 0 and c = "JList [JInt 61]",
     THEN conjunct2, THEN conjunct1] d2 t2 c2
  have w2: "\<exists>e. fst (get_forecast (\<lambda>r. Responds 200 (Some forecast_list_code)) (JInt 35) (JInt 139) 1) =
      Inl (HTTPException 502 (Unexpected_format e))"
    by simp
  from main
    [where client = "\<lambda>r. Responds 200 (Some error_body)" and lat = "JInt 35" and lon = "JInt 139"
       and days = 3 and data = error_body,
     THEN conjunct2, THEN conjunct2, THEN conjunct1]
  have w3: "\<exists>e. fst (get_forecast (\<lambda>r. Responds 200 (Some error_body)) (JInt 35) (JInt 139) 3) =
      Inl (HTTPException 502 (Unexpected_format e))"
    by (simp add: error_body_def)
  from main
    [where client = "\<lambda>r. Responds 200 (Some (JDict [(''daily'', JDict [])]))" and lat = "JInt 35"
       and lon = "JInt 139" and days = 3 and data = "JDict [(''daily'', JDict [])]"
       and daily = "JDict []",
     THEN conjunct2, THEN conjunct2, THEN conjunct2, THEN conjunct1]
  have w4: "\<exists>e. fst (get_forecast (\<lambda>r. Responds 200 (Some (JDict [(''daily'', JDict [])]))) (JInt 35) (JInt 139) 3) =
      Inl (HTTPException 502 (Unexpected_format e))"
    by simp
  from main
    [where client = "\<lambda>r. Responds 200 (Some (JDict [(''daily'', JDict [(''time'', JList [JStr ''2026-02-21''])])]))"
       and lat = "JInt 35" and lon = "JInt 139" and days = 3
       and data = "JDict [(''daily'', JDict [(''time'', JList [JStr ''2026-02-21''])])]"
       and daily = "JDict [(''time'', JList [JStr ''2026-02-21''])]"
       and t = "JList [JStr ''2026-02-21'']" and n = 1 and k = "''weather_code''",
     THEN conjunct2, THEN conjunct2, THEN conjunct2, THEN conjunct2, THEN conjunct1]
  have w5: "\<exists>e. fst (get_forecast (\<lambda>r. Responds 200 (Some (JDict [(''daily'', JDict [(''time'', JList [JStr ''2026-02-21''])])]))) (JInt 35) (JInt 139) 3) =
      Inl (HTTPException 502 (Unexpected_format e))"
    by (simp add: daily_arrays_def)
  have d6: "getitem forecast_short_codes ''daily'' = Inr daily_short_codes"
    by (simp add: forecast_short_codes_def)
  have t6: "getitem daily_short_codes ''time'' = Inr (JList ?ts)"
    by (simp add: daily_short_codes_def)
  have i6: "isl (daily_at daily_short_codes ''weather_code'' 2)"
    by (simp add: daily_at_def daily_short_codes_def)
  from main
    [where client = "\<lambda>r. Responds 200 (Some forecast_short_codes)" and lat = "JInt 35"
       and lon = "JInt 139" and days = 3 and data = forecast_short_codes
       and daily = daily_short_codes and t = "JList ?ts" and n = 3 and i = 2
       and k = "''weather_code''",
     THEN conjunct2, THEN conjunct2, THEN conjunct2, THEN conjunct2, THEN conjunct2, THEN conjunct1] d6 t6 i6
  have w6: "\<exists>e. fst (get_forecast (\<lambda>r. Responds 200 (Some forecast_short_codes)) (JInt 35) (JInt 139) 3) =
      Inl (HTTPException 502 (Unexpected_format e))"
    by (simp add: daily_arrays_def)
  have run: "fst (get_forecast (\<lambda>r. Responds 200 (Some forecast_two_days)) (JInt 35) (JInt 139) 3) =
     Inr [\<lparr>date = JStr ''2026-02-21'', day_condition = ''Slight rain'', day_weather_code = JInt 61,
           temp_max_c = JInt 15, temp_min_c = JInt 8, day_precipitation_mm = JInt 12,
           precipitation_probability_pct = JInt 85, wind_max_kmh = JInt 22\<rparr>,
          \<lparr>date = JStr ''2026-02-22'', day_condition = ''Clear sky'', day_weather_code = JInt 0,
           temp_max_c = JInt 18, temp_min_c = JInt 9, day_precipitation_mm = JInt 0,
           precipitation_probability_pct = JInt 5, wind_max_kmh = JInt 10\<rparr>]"
    by code_simp
  from main
    [where client = "\<lambda>r. Responds 200 (Some forecast_two_days)" and lat = "JInt 35"
       and lon = "JInt 139" and days = 3 and data = forecast_two_days
       and rows = "[\<lparr>date = JStr ''2026-02-21'', day_condition = ''Slight rain'', day_weather_code = JInt 61,
           temp_max_c = JInt 15, temp_min_c = JInt 8, day_precipitation_mm = JInt 12,
           precipitation_probability_pct = JInt 85, wind_max_kmh = JInt 22\<rparr>,
          \<lparr>date = JStr ''2026-02-22'', day_condition = ''Clear sky'', day_weather_code = JInt 0,
           temp_max_c = JInt 18, temp_min_c = JInt 9, day_precipitation_mm = JInt 0,
           precipitation_probability_pct = JInt 5, wind_max_kmh = JInt 10\<rparr>]",
     THEN conjunct2, THEN conjunct2, THEN conjunct2, THEN conjunct2, THEN conjunct2, THEN conjunct2, THEN conjunct1] run
  have w7: "\<exists>daily t. getitem forecast_two_days ''daily'' = Inr daily \<and> getitem daily ''time'' = Inr t \<and>
      py_len t = Inr 2"
    by (auto simp: numeral_2_eq_2)
  have d8: "getitem forecast_no_days ''daily'' = Inr (JDict [(''time'', JList [])])"
    by (simp add: forecast_no_days_def)
  from main
    [where client = "\<lambda>r. Responds 200 (Some forecast_no_days)" and lat = "JInt 35"
       and lon = "JInt 139" and days = 3 and data = forecast_no_days
       and daily = "JDict [(''time'', JList [])]" and t = "JList []",
     THEN conjunct2, THEN conjunct2, THEN conjunct2, THEN conjunct2, THEN conjunct2, THEN conjunct2, THEN conjunct2] d8
  have w8: "fst (get_forecast (\<lambda>r. Responds 200 (Some forecast_no_days)) (JInt 35) (JInt 139) 3) = Inr []"
    by simp
  from w1 w2 w3 w4 w5 w6 w7 w8 show ?thesis by blast
qed

section \<open>Malformed bodies\<close>

lemma current_data_Inr:
  "current_data data = Inr r \<longleftrightarrow>
     (\<exists>cur. getitem data ''current'' = Inr cur \<and>
        getitem cur ''weather_code'' = Inr (weather_code r) \<and>
        getitem cur ''temperature_2m'' = Inr (temperature_c r) \<and>
        getitem cur ''apparent_temperature'' = Inr (feels_like_c r) \<and>
        getitem cur ''relative_humidity_2m'' = Inr (humidity_pct r) \<and>
        getitem cur ''wind_speed_10m'' = Inr (wind_speed_kmh r) \<and>
        getitem cur ''wind_direction_10m'' = Inr (wind_direction_deg r) \<and>
        getitem cur ''precipitation'' = Inr (precipitation_mm r) \<and>
        describe_weather_code (weather_code r) = Inr (condition r) \<and>
        getitem cur ''time'' = Inr (observation_time r))"
  unfolding current_data_def and_then_eq_Inr
  by (cases r) auto

lemma current_data_no_current:
  "isl (getitem data ''current'') \<Longrightarrow> \<exists>e. current_data data = Inl e"
  by (cases "getitem data ''current''") (simp_all add: current_data_def)

lemma current_data_needs:
  assumes "getitem data ''current'' = Inr cur" "k \<in> set current_fields" "isl (getitem cur k)"
  shows "\<exists>e. current_data data = Inl e"
proof (cases "current_data data")
  case (Inl e)
  then show ?thesis by blast
next
  case (Inr r)
  with assms show ?thesis
    by (auto simp: current_data_Inr current_fields_def)
qed

lemma get_current_502:
  assumes "client (current_request lat lon) = Responds 200 (Some data)"
    and "\<exists>e. current_data data = Inl e"
  shows "\<exists>e. fst (get_current client lat lon) =
           Inl (HTTPException 502 (Unexpected_format e))"
proof -
  from assms(2) obtain e where "current_data data = Inl e" ..
  then have "except_format (current_data data) = Inl (HTTPException 502 (Unexpected_format e))"
    by (rule current_failure_502)
  with get_current_200 [of client lat lon data] assms(1) show ?thesis by auto
qed

lemma get_current_returns:
  assumes "client (current_request lat lon) = Responds 200 (Some data)"
  shows "fst (get_current client lat lon) = Inr r \<longleftrightarrow> current_data data = Inr r"
  using get_current_200 [of client lat lon data] assms
  by (simp add: except_format_eq_Inr)

lemma current_data_unhashable:
  assumes "getitem data ''current'' = Inr cur" "getitem cur ''weather_code'' = Inr c"
    "\<not> hashable c"
  shows "\<exists>e. current_data data = Inl e"
proof (cases "current_data data")
  case (Inl e)
  then show ?thesis by blast
next
  case (Inr r)
  with assms(1,2) have "describe_weather_code c = Inr (condition r)"
    by (auto simp: current_data_Inr)
  with describe_unhashable [OF assms(3)] show ?thesis by simp
qed

lemma current_data_fields:
  assumes "getitem data ''current'' = Inr cur"
    and "getitem cur ''weather_code'' = Inr c" "hashable c"
    and "getitem cur ''temperature_2m'' = Inr tc"
    and "getitem cur ''apparent_temperature'' = Inr fl"
    and "getitem cur ''relative_humidity_2m'' = Inr hm"
    and "getitem cur ''wind_speed_10m'' = Inr wsp"
    and "getitem cur ''wind_direction_10m'' = Inr wd"
    and "getitem cur ''precipitation'' = Inr pr"
    and "getitem cur ''time'' = Inr tm"
  shows "current_data data =
     Inr \<lparr>temperature_c = tc, feels_like_c = fl, humidity_pct = hm,
          wind_speed_kmh = wsp, wind_direction_deg = wd, precipitation_mm = pr,
          condition = projr (describe_weather_code c), weather_code = c,
          observation_time = tm\<rparr>"
proof -
  from assms(3) obtain s where "describe_weather_code c = Inr s"
    by (cases c) simp_all
  with assms show ?thesis
    by (simp add: current_data_def)
qed

text \<open>
  C4, as amended. For a 200 response with a JSON body, \<open>get_current\<close> fails with
  \<open>HTTPException\<close> 502 when \<open>current\<close> cannot be read from the body, when any of its eight
  keys cannot be read from \<open>current\<close> (the key is missing, or \<open>current\<close> is not an object),
  and when the weather code is a list or an object; in every other case it returns, each
  field being the value found under its key, of whatever kind. \<open>get_forecast\<close> fails with
  502 when \<open>daily\<close> or its \<open>time\<close> cannot be read, when the length of \<open>time\<close> cannot be
  taken, and when at a position below that length an array is missing, cannot be read
  there, or holds a list or an object as weather code; in every other case it returns one
  entry per position of \<open>time\<close>, and with an empty \<open>time\<close> the empty list, the other
  arrays not being read. Nothing is ever defaulted: every field of a returned result is
  the value the body holds under the corresponding key (and position), and the condition
  is the description of that weather code.
\<close>

theorem missing_keys_fail_and_nothing_is_defaulted:
  "(client (current_request lat lon) = Responds 200 (Some data) \<and>
    isl (getitem data ''current'') \<longrightarrow>
      (\<exists>e. fst (get_current client lat lon) = Inl (HTTPException 502 (Unexpected_format e)))) \<and>
   (client (current_request lat lon) = Responds 200 (Some data) \<and>
    getitem data ''current'' = Inr cur \<and> k \<in> set current_fields \<and> isl (getitem cur k) \<longrightarrow>
      (\<exists>e. fst (get_current client lat lon) = Inl (HTTPException 502 (Unexpected_format e)))) \<and>
   (client (current_request lat lon) = Responds 200 (Some data) \<and>
    getitem data ''current'' = Inr cur \<and> getitem cur ''weather_code'' = Inr c \<and>
    \<not> hashable c \<longrightarrow>
      (\<exists>e. fst (get_current client lat lon) = Inl (HTTPException 502 (Unexpected_format e)))) \<and>
   (client (current_request lat lon) = Responds 200 (Some data) \<and>
    getitem data ''current'' = Inr cur \<and>
    getitem cur ''weather_code'' = Inr c \<and> hashable c \<and>
    getitem cur ''temperature_2m'' = Inr tc \<and>
    getitem cur ''apparent_temperature'' = Inr fl \<and>
    getitem cur ''relative_humidity_2m'' = Inr hm \<and>
    getitem cur ''wind_speed_10m'' = Inr wsp \<and>
    getitem cur ''wind_direction_10m'' = Inr wd \<and>
    getitem cur ''precipitation'' = Inr pr \<and>
    getitem cur ''time'' = Inr tm \<longrightarrow>
      fst (get_current client lat lon) =
        Inr \<lparr>temperature_c = tc, feels_like_c = fl, humidity_pct = hm,
             wind_speed_kmh = wsp, wind_direction_deg = wd, precipitation_mm = pr,
             condition = projr (describe_weather_code c), weather_code = c,
             observation_time = tm\<rparr>) \<and>
   (client (current_request lat lon) = Responds 200 (Some data) \<and>
    fst (get_current client lat lon) = Inr r \<longrightarrow>
      (\<exists>cur. getitem data ''current'' = Inr cur \<and>
         getitem cur ''temperature_2m'' = Inr (temperature_c r) \<and>
         getitem cur ''apparent_temperature'' = Inr (feels_like_c r) \<and>
         getitem cur ''relative_humidity_2m'' = Inr (humidity_pct r) \<and>
         getitem cur ''wind_speed_10m'' = Inr (wind_speed_kmh r) \<and>
         getitem cur ''wind_direction_10m'' = Inr (wind_direction_deg r) \<and>
         getitem cur ''precipitation'' = Inr (precipitation_mm r) \<and>
         getitem cur ''weather_code'' = Inr (weather_code r) \<and>
         describe_weather_code (weather_code r) = Inr (condition r) \<and>
         getitem cur ''time'' = Inr (observation_time r))) \<and>
   (client (forecast_request lat lon days) = Responds 200 (Some data) \<and>
    isl (getitem data ''daily'') \<longrightarrow>
      (\<exists>e. fst (get_forecast client lat lon days) =
              Inl (HTTPException 502 (Unexpected_format e)))) \<and>
   (client (forecast_request lat lon days) = Responds 200 (Some data) \<and>
    getitem data ''daily'' = Inr daily \<and> isl (getitem daily ''time'') \<longrightarrow>
      (\<exists>e. fst (get_forecast client lat lon days) =
              Inl (HTTPException 502 (Unexpected_format e)))) \<and>
   (client (forecast_request lat lon days) = Responds 200 (Some data) \<and>
    getitem data ''daily'' = Inr daily \<and> getitem daily ''time'' = Inr t \<and>
    isl (py_len t) \<longrightarrow>
      (\<exists>e. fst (get_forecast client lat lon days) =
              Inl (HTTPException 502 (Unexpected_format e)))) \<and>
   (client (forecast_request lat lon days) = Responds 200 (Some data) \<and>
    getitem data ''daily'' = Inr daily \<and> getitem daily ''time'' = Inr t \<and>
    py_len t = Inr n \<and> 0 < n \<and> k \<in> set daily_arrays \<and> isl (getitem daily k) \<longrightarrow>
      (\<exists>e. fst (get_forecast client lat lon days) =
              Inl (HTTPException 502 (Unexpected_format e)))) \<and>
   (client (forecast_request lat lon days) = Responds 200 (Some data) \<and>
    getitem data ''daily'' = Inr daily \<and> getitem daily ''time'' = Inr t \<and>
    py_len t = Inr n \<and> i < n \<and> (k \<in> set daily_arrays \<or> k = ''time'') \<and>
    isl (daily_at daily k i) \<longrightarrow>
      (\<exists>e. fst (get_forecast client lat lon days) =
              Inl (HTTPException 502 (Unexpected_format e)))) \<and>
   (client (forecast_request lat lon days) = Responds 200 (Some data) \<and>
    getitem data ''daily'' = Inr daily \<and> getitem daily ''time'' = Inr t \<and>
    py_len t = Inr n \<and> i < n \<and> daily_at daily ''weather_code'' i = Inr c \<and>
    \<not> hashable c \<longrightarrow>
      (\<exists>e. fst (get_forecast client lat lon days) =
              Inl (HTTPException 502 (Unexpected_format e)))) \<and>
   (client (forecast_request lat lon days) = Responds 200 (Some data) \<and>
    getitem data ''daily'' = Inr daily \<and> getitem daily ''time'' = Inr t \<and>
    py_len t = Inr n \<and>
    (\<forall>i<n. \<forall>k\<in>set (''time'' # daily_arrays). \<not> isl (daily_at daily k i)) \<and>
    (\<forall>i<n. \<forall>c. daily_at daily ''weather_code'' i = Inr c \<longrightarrow> hashable c) \<longrightarrow>
      (\<exists>out. fst (get_forecast client lat lon days) = Inr out \<and> length out = n)) \<and>
   (client (forecast_request lat lon days) = Responds 200 (Some data) \<and>
    getitem data ''daily'' = Inr daily \<and> getitem daily ''time'' = Inr t \<and>
    py_len t = Inr 0 \<longrightarrow>
      fst (get_forecast client lat lon days) = Inr []) \<and>
   (client (forecast_request lat lon days) = Responds 200 (Some data) \<and>
    fst (get_forecast client lat lon days) = Inr rows \<longrightarrow>
      (\<exists>daily. getitem data ''daily'' = Inr daily \<and>
         (\<forall>i<length rows.
            daily_at daily ''time'' i = Inr (date (rows ! i)) \<and>
            daily_at daily ''weather_code'' i = Inr (day_weather_code (rows ! i)) \<and>
            describe_weather_code (day_weather_code (rows ! i)) = Inr (day_condition (rows ! i)) \<and>
            daily_at daily ''temperature_2m_max'' i = Inr (temp_max_c (rows ! i)) \<and>
            daily_at daily ''temperature_2m_min'' i = Inr (temp_min_c (rows ! i)) \<and>
            daily_at daily ''precipitation_sum'' i = Inr (day_precipitation_mm (rows ! i)) \<and>
            daily_at daily ''precipitation_probability_max'' i =
              Inr (precipitation_probability_pct (rows ! i)) \<and>
            daily_at daily ''wind_speed_10m_max'' i = Inr (wind_max_kmh (rows ! i)))))"
proof (intro conjI impI)
  assume a: "client (current_request lat lon) = Responds 200 (Some data) \<and>
    isl (getitem data ''current'')"
  then show "\<exists>e. fst (get_current client lat lon) = Inl (HTTPException 502 (Unexpected_format e))"
    by (intro get_current_502 [where data = data] current_data_no_current) blast+
next
  assume a: "client (current_request lat lon) = Responds 200 (Some data) \<and>
    getitem data ''current'' = Inr cur \<and> k \<in> set current_fields \<and> isl (getitem cur k)"
  then show "\<exists>e. fst (get_current client lat lon) = Inl (HTTPException 502 (Unexpected_format e))"
    by (intro get_current_502 [where data = data] current_data_needs [where cur = cur and k = k])
      blast+
next
  assume a: "client (current_request lat lon) = Responds 200 (Some data) \<and>
    getitem data ''current'' = Inr cur \<and> getitem cur ''weather_code'' = Inr c \<and>
    \<not> hashable c"
  then show "\<exists>e. fst (get_current client lat lon) = Inl (HTTPException 502 (Unexpected_format e))"
    by (intro get_current_502 [where data = data]
          current_data_unhashable [where cur = cur and c = c]) blast+
next
  assume a: "client (current_request lat lon) = Responds 200 (Some data) \<and>
    getitem data ''current'' = Inr cur \<and>
    getitem cur ''weather_code'' = Inr c \<and> hashable c \<and>
    getitem cur ''temperature_2m'' = Inr tc \<and>
    getitem cur ''apparent_temperature'' = Inr fl \<and>
    getitem cur ''relative_humidity_2m'' = Inr hm \<and>
    getitem cur ''wind_speed_10m'' = Inr wsp \<and>
    getitem cur ''wind_direction_10m'' = Inr wd \<and>
    getitem cur ''precipitation'' = Inr pr \<and>
    getitem cur ''time'' = Inr tm"
  then have "current_data data =
        Inr \<lparr>temperature_c = tc, feels_like_c = fl, humidity_pct = hm,
             wind_speed_kmh = wsp, wind_direction_deg = wd, precipitation_mm = pr,
             condition = projr (describe_weather_code c), weather_code = c,
             observation_time = tm\<rparr>"
    by (intro current_data_fields [where cur = cur]) blast+
  with a show "fst (get_current client lat lon) =
        Inr \<lparr>temperature_c = tc, feels_like_c = fl, humidity_pct = hm,
             wind_speed_kmh = wsp, wind_direction_deg = wd, precipitation_mm = pr,
             condition = projr (describe_weather_code c), weather_code = c,
             observation_time = tm\<rparr>"
    using get_current_returns [of client lat lon data] by blast
next
  assume a: "client (current_request lat lon) = Responds 200 (Some data) \<and>
    fst (get_current client lat lon) = Inr r"
  then have "current_data data = Inr r"
    using get_current_returns [of client lat lon data r] by blast
  then show "\<exists>cur. getitem data ''current'' = Inr cur \<and>
         getitem cur ''temperature_2m'' = Inr (temperature_c r) \<and>
         getitem cur ''apparent_temperature'' = Inr (feels_like_c r) \<and>
         getitem cur ''relative_humidity_2m'' = Inr (humidity_pct r) \<and>
         getitem cur ''wind_speed_10m'' = Inr (wind_speed_kmh r) \<and>
         getitem cur ''wind_direction_10m'' = Inr (wind_direction_deg r) \<and>
         getitem cur ''precipitation'' = Inr (precipitation_mm r) \<and>
         getitem cur ''weather_code'' = Inr (weather_code r) \<and>
         describe_weather_code (weather_code r) = Inr (condition r) \<and>
         getitem cur ''time'' = Inr (observation_time r)"
    by (auto simp: current_data_Inr)
next
  assume a: "client (forecast_request lat lon days) = Responds 200 (Some data) \<and>
    isl (getitem data ''daily'')"
  then show "\<exists>e. fst (get_forecast client lat lon days) =
              Inl (HTTPException 502 (Unexpected_format e))"
    by (intro get_forecast_502 [where data = data] forecast_data_no_daily) blast+
next
  assume a: "client (forecast_request lat lon days) = Responds 200 (Some data) \<and>
    getitem data ''daily'' = Inr daily \<and> isl (getitem daily ''time'')"
  then show "\<exists>e. fst (get_forecast client lat lon days) =
              Inl (HTTPException 502 (Unexpected_format e))"
    by (intro get_forecast_502 [where data = data] forecast_data_no_time [where daily = daily])
      blast+
next
  assume a: "client (forecast_request lat lon days) = Responds 200 (Some data) \<and>
    getitem data ''daily'' = Inr daily \<and> getitem daily ''time'' = Inr t \<and>
    isl (py_len t)"
  then show "\<exists>e. fst (get_forecast client lat lon days) =
              Inl (HTTPException 502 (Unexpected_format e))"
    by (intro get_forecast_502 [where data = data]
          forecast_data_no_len [where daily = daily and t = t]) blast+
next
  assume a: "client (forecast_request lat lon days) = Responds 200 (Some data) \<and>
    getitem data ''daily'' = Inr daily \<and> getitem daily ''time'' = Inr t \<and>
    py_len t = Inr n \<and> 0 < n \<and> k \<in> set daily_arrays \<and> isl (getitem daily k)"
  then have "isl (forecast_entry daily 0)"
    by (intro forecast_entry_needs [where k = k] daily_at_missing) blast+
  with a show "\<exists>e. fst (get_forecast client lat lon days) =
              Inl (HTTPException 502 (Unexpected_format e))"
    by (intro get_forecast_entry_fails [where data = data and daily = daily and t = t and n = n
          and i = 0]) blast+
next
  assume a: "client (forecast_request lat lon days) = Responds 200 (Some data) \<and>
    getitem data ''daily'' = Inr daily \<and> getitem daily ''time'' = Inr t \<and>
    py_len t = Inr n \<and> i < n \<and> (k \<in> set daily_arrays \<or> k = ''time'') \<and>
    isl (daily_at daily k i)"
  then have "isl (forecast_entry daily i)"
    by (intro forecast_entry_needs [where k = k]) blast+
  with a show "\<exists>e. fst (get_forecast client lat lon days) =
              Inl (HTTPException 502 (Unexpected_format e))"
    by (intro get_forecast_entry_fails [where data = data and daily = daily and t = t and n = n
          and i = i]) blast+
next
  assume a: "client (forecast_request lat lon days) = Responds 200 (Some data) \<and>
    getitem data ''daily'' = Inr daily \<and> getitem daily ''time'' = Inr t \<and>
    py_len t = Inr n \<and> i < n \<and> daily_at daily ''weather_code'' i = Inr c \<and>
    \<not> hashable c"
  then have "isl (forecast_entry daily i)"
    by (intro forecast_entry_unhashable [where c = c]) blast+
  with a show "\<exists>e. fst (get_forecast client lat lon days) =
              Inl (HTTPException 502 (Unexpected_format e))"
    by (intro get_forecast_entry_fails [where data = data and daily = daily and t = t and n = n
          and i = i]) blast+
next
  assume a: "client (forecast_request lat lon days) = Responds 200 (Some data) \<and>
    getitem data ''daily'' = Inr daily \<and> getitem daily ''time'' = Inr t \<and>
    py_len t = Inr n \<and>
    (\<forall>i<n. \<forall>k\<in>set (''time'' # daily_arrays). \<not> isl (daily_at daily k i)) \<and>
    (\<forall>i<n. \<forall>c. daily_at daily ''weather_code'' i = Inr c \<longrightarrow> hashable c)"
  then have "\<exists>out. forecast_data data = Inr out \<and> length out = n"
    by (intro forecast_data_succeeds [where daily = daily and t = t]) blast+
  then obtain out where "forecast_data data = Inr out" "length out = n" by blast
  with a show "\<exists>out. fst (get_forecast client lat lon days) = Inr out \<and> length out = n"
    using get_forecast_returns [of client lat lon days data out] by blast
next
  assume a: "client (forecast_request lat lon days) = Responds 200 (Some data) \<and>
    getitem data ''daily'' = Inr daily \<and> getitem daily ''time'' = Inr t \<and>
    py_len t = Inr 0"
  then have "forecast_data data = Inr []"
    by (intro forecast_data_empty [where daily = daily and t = t]) blast+
  with a show "fst (get_forecast client lat lon days) = Inr []"
    using get_forecast_returns [of client lat lon days data "[]"] by blast
next
  assume a: "client (forecast_request lat lon days) = Responds 200 (Some data) \<and>
    fst (get_forecast client lat lon days) = Inr rows"
  then have "forecast_data data = Inr rows"
    using get_forecast_returns [of client lat lon days data rows] by blast
  then obtain daily where d: "getitem data ''daily'' = Inr daily"
    and e: "\<forall>i<length rows. forecast_entry daily i = Inr (rows ! i)"
    by (auto simp: forecast_data_Inr)
  from e have "\<forall>i<length rows.
            daily_at daily ''time'' i = Inr (date (rows ! i)) \<and>
            daily_at daily ''weather_code'' i = Inr (day_weather_code (rows ! i)) \<and>
            describe_weather_code (day_weather_code (rows ! i)) = Inr (day_condition (rows ! i)) \<and>
            daily_at daily ''temperature_2m_max'' i = Inr (temp_max_c (rows ! i)) \<and>
            daily_at daily ''temperature_2m_min'' i = Inr (temp_min_c (rows ! i)) \<and>
            daily_at daily ''precipitation_sum'' i = Inr (day_precipitation_mm (rows ! i)) \<and>
            daily_at daily ''precipitation_probability_max'' i =
              Inr (precipitation_probability_pct (rows ! i)) \<and>
            daily_at daily ''wind_speed_10m_max'' i = Inr (wind_max_kmh (rows ! i))"
    by (simp add: forecast_entry_Inr)
  with d show "\<exists>daily. getitem data ''daily'' = Inr daily \<and>
         (\<forall>i<length rows.
            daily_at daily ''time'' i = Inr (date (rows ! i)) \<and>
            daily_at daily ''weather_code'' i = Inr (day_weather_code (rows ! i)) \<and>
            describe_weather_code (day_weather_code (rows ! i)) = Inr (day_condition (rows ! i)) \<and>
            daily_at daily ''temperature_2m_max'' i = Inr (temp_max_c (rows ! i)) \<and>
            daily_at daily ''temperature_2m_min'' i = Inr (temp_min_c (rows ! i)) \<and>
            daily_at daily ''precipitation_sum'' i = Inr (day_precipitation_mm (rows ! i)) \<and>
            daily_at daily ''precipitation_probability_max'' i =
              Inr (precipitation_probability_pct (rows ! i)) \<and>
            daily_at daily ''wind_speed_10m_max'' i = Inr (wind_max_kmh (rows ! i)))"
    by blast
qed

text \<open>
  The claim as first stated fails on a field of the wrong shape (a list where the
  temperature should be is returned as it is) and on arrays missing beside an empty
  \<open>time\<close> array (the empty list is returned).
\<close>

theorem unchecked_leaf_and_unread_arrays_counterexample:
  "fst (get_current (\<lambda>r. Responds 200 (Some current_list_temperature)) (JInt 35) (JInt 139)) =
     Inr \<lparr>temperature_c = JList [],
          feels_like_c = JFloat (PyFloat None ''10.2''),
          humidity_pct = JInt 65,
          wind_speed_kmh = JFloat (PyFloat None ''15.3''),
          wind_direction_deg = JInt 270,
          precipitation_mm = JFloat (PyFloat (Some 0) ''0.0''),
          condition = ''Partly cloudy'', weather_code = JInt 2,
          observation_time = JStr ''2026-02-20T15:00''\<rparr> \<and>
   fst (get_forecast (\<lambda>r. Responds 200 (Some forecast_no_days_codes_only))
          (JInt 35) (JInt 139) 3) = Inr []"
  by code_simp

theorem missing_keys_fail_and_nothing_is_defaulted_witness:
  "(\<exists>e. fst (get_current (\<lambda>r. Responds 200 (Some error_body)) (JInt 35) (JInt 139)) =
      Inl (HTTPException 502 (Unexpected_format e))) \<and>
   (\<exists>e. fst (get_current (\<lambda>r. Responds 200 (Some current_no_precipitation)) (JInt 35) (JInt 139)) =
      Inl (HTTPException 502 (Unexpected_format e))) \<and>
   (\<exists>e. fst (get_current (\<lambda>r. Responds 200 (Some current_list_code)) (JInt 35) (JInt 139)) =
      Inl (HTTPException 502 (Unexpected_format e))) \<and>
   fst (get_current (\<lambda>r. Responds 200 (Some current_list_temperature)) (JInt 35) (JInt 139)) =
     Inr \<lparr>temperature_c = JList [],
          feels_like_c = JFloat (PyFloat None ''10.2''),
          humidity_pct = JInt 65,
          wind_speed_kmh = JFloat (PyFloat None ''15.3''),
          wind_direction_deg = JInt 270,
          precipitation_mm = JFloat (PyFloat (Some 0) ''0.0''),
          condition = ''Partly cloudy'', weather_code = JInt 2,
          observation_time = JStr ''2026-02-20T15:00''\<rparr> \<and>
   (\<exists>cur. getitem current_sample ''current'' = Inr cur \<and>
      getitem cur ''temperature_2m'' = Inr (JFloat (PyFloat None ''12.5'')) \<and>
      getitem cur ''weather_code'' = Inr (JInt 2) \<and>
      describe_weather_code (JInt 2) = Inr ''Partly cloudy'') \<and>
   (\<exists>e. fst (get_forecast (\<lambda>r. Responds 200 (Some error_body)) (JInt 35) (JInt 139) 3) =
      Inl (HTTPException 502 (Unexpected_format e))) \<and>
   (\<exists>e. fst (get_forecast (\<lambda>r. Responds 200 (Some (JDict [(''daily'', JDict [])]))) (JInt 35) (JInt 139) 3) =
      Inl (HTTPException 502 (Unexpected_format e))) \<and>
   (\<exists>e. fst (get_forecast (\<lambda>r. Responds 200 (Some (JDict [(''daily'', JDict [(''time'', JInt 3)])]))) (JInt 35) (JInt 139) 3) =
      Inl (HTTPException 502 (Unexpected_format e))) \<and>
   (\<exists>e. fst (get_forecast (\<lambda>r. Responds 200 (Some (JDict [(''daily'', JDict [(''time'', JList [JStr ''2026-02-21''])])]))) (JInt 35) (JInt 139) 3) =
      Inl (HTTPException 502 (Unexpected_format e))) \<and>
   (\<exists>e. fst (get_forecast (\<lambda>r. Responds 200 (Some forecast_short_codes)) (JInt 35) (JInt 139) 3) =
      Inl (HTTPException 502 (Unexpected_format e))) \<and>
   (\<exists>e. fst (get_forecast (\<lambda>r. Responds 200 (Some forecast_list_code)) (JInt 35) (JInt 139) 1) =
      Inl (HTTPException 502 (Unexpected_format e))) \<and>
   (\<exists>out. fst (get_forecast (\<lambda>r. Responds 200 (Some forecast_two_days)) (JInt 35) (JInt 139) 3) = Inr out \<and>
      length out = 2) \<and>
   fst (get_forecast (\<lambda>r. Responds 200 (Some forecast_no_days_codes_only)) (JInt 35) (JInt 139) 3) = Inr [] \<and>
   (\<exists>daily. getitem forecast_two_days ''daily'' = Inr daily \<and>
      daily_at daily ''time'' 1 = Inr (JStr ''2026-02-22'') \<and>
      daily_at daily ''weather_code'' 1 = Inr (JInt 0))"
proof -
  note main = missing_keys_fail_and_nothing_is_defaulted
  from main [where client = "\<lambda>r. Responds 200 (Some error_body)" and lat = "JInt 35" and lon = "JInt 139"
      and data = error_body,
      THEN conjunct1]
  have w0: "\<exists>e. fst (get_current (\<lambda>r. Responds 200 (Some error_body)) (JInt 35) (JInt 139)) =
      Inl (HTTPException 502 (Unexpected_format e))"
    by (simp add: error_body_def)
  have c1: "getitem current_no_precipitation ''current'' = Inr (JDict
       [(''temperature_2m'', JFloat (PyFloat None ''12.5'')),
        (''apparent_temperature'', JFloat (PyFloat None ''10.2'')),
        (''relative_humidity_2m'', JInt 65),
        (''wind_speed_10m'', JFloat (PyFloat None ''15.3'')),
        (''wind_direction_10m'', JInt 270),
        (''weather_code'', JInt 2),
        (''time'', JStr ''2026-02-20T15:00'')])"
    by (simp add: current_no_precipitation_def)
  from main [where client = "\<lambda>r. Responds 200 (Some current_no_precipitation)" and lat = "JInt 35" and lon = "JInt 139"
      and data = current_no_precipitation and cur = "JDict
       [(''temperature_2m'', JFloat (PyFloat None ''12.5'')),
        (''apparent_temperature'', JFloat (PyFloat None ''10.2'')),
        (''relative_humidity_2m'', JInt 65),
        (''wind_speed_10m'', JFloat (PyFloat None ''15.3'')),
        (''wind_direction_10m'', JInt 270),
        (''weather_code'', JInt 2),
        (''time'', JStr ''2026-02-20T15:00'')]"
      and k = "''precipitation''",
      THEN conjunct2, THEN conjunct1] c1
  have w1: "\<exists>e. fst (get_current (\<lambda>r. Responds 200 (Some current_no_precipitation)) (JInt 35) (JInt 139)) =
      Inl (HTTPException 502 (Unexpected_format e))"
    by (simp add: current_fields_def)
  have c2: "getitem current_list_code ''current'' = Inr (JDict
       [(''temperature_2m'', JFloat (PyFloat None ''12.5'')),
        (''apparent_temperature'', JFloat (PyFloat None ''10.2'')),
        (''relative_humidity_2m'', JInt 65),
        (''wind_speed_10m'', JFloat (PyFloat None ''15.3'')),
        (''wind_direction_10m'', JInt 270),
        (''precipitation'', JFloat (PyFloat (Some 0) ''0.0'')),
        (''weather_code'', JList [JInt 2]),
        (''time'', JStr ''2026-02-20T15:00'')])"
    by (simp add: current_list_code_def)
  from main [where client = "\<lambda>r. Responds 200 (Some current_list_code)" and lat = "JInt 35" and lon = "JInt 139"
      and data = current_list_code and cur = "JDict
       [(''temperature_2m'', JFloat (PyFloat None ''12.5'')),
        (''apparent_temperature'', JFloat (PyFloat None ''10.2'')),
        (''relative_humidity_2m'', JInt 65),
        (''wind_speed_10m'', JFloat (PyFloat None ''15.3'')),
        (''wind_direction_10m'', JInt 270),
        (''precipitation'', JFloat (PyFloat (Some 0) ''0.0'')),
        (''weather_code'', JList [JInt 2]),
        (''time'', JStr ''2026-02-20T15:00'')]"
      and c = "JList [JInt 2]",
      THEN conjunct2, THEN conjunct2, THEN conjunct1] c2
  have w2: "\<exists>e. fst (get_current (\<lambda>r. Responds 200 (Some current_list_code)) (JInt 35) (JInt 139)) =
      Inl (HTTPException 502 (Unexpected_format e))"
    by simp
  have c3: "getitem current_list_temperature ''current'' = Inr (JDict
       [(''temperature_2m'', JList []),
        (''apparent_temperature'', JFloat (PyFloat None ''10.2'')),
        (''relative_humidity_2m'', JInt 65),
        (''wind_speed_10m'', JFloat (PyFloat None ''15.3'')),
        (''wind_direction_10m'', JInt 270),
        (''precipitation'', JFloat (PyFloat (Some 0) ''0.0'')),
        (''weather_code'', JInt 2),
        (''time'', JStr ''2026-02-20T15:00'')])"
    by (simp add: current_list_temperature_def)
  from main [where client = "\<lambda>r. Responds 200 (Some current_list_temperature)" and lat = "JInt 35" and lon = "JInt 139"
      and data = current_list_temperature and cur = "JDict
       [(''temperature_2m'', JList []),
        (''apparent_temperature'', JFloat (PyFloat None ''10.2'')),
        (''relative_humidity_2m'', JInt 65),
        (''wind_speed_10m'', JFloat (PyFloat None ''15.3'')),
        (''wind_direction_10m'', JInt 270),
        (''precipitation'', JFloat (PyFloat (Some 0) ''0.0'')),
        (''weather_code'', JInt 2),
        (''time'', JStr ''2026-02-20T15:00'')]"
      and c = "JInt 2" and tc = "JList []" and fl = "JFloat (PyFloat None ''10.2'')"
      and hm = "JInt 65" and wsp = "JFloat (PyFloat None ''15.3'')" and wd = "JInt 270"
      and pr = "JFloat (PyFloat (Some 0) ''0.0'')" and tm = "JStr ''2026-02-20T15:00''",
      THEN conjunct2, THEN conjunct2, THEN conjunct2, THEN conjunct1] c3
  have w3: "fst (get_current (\<lambda>r. Responds 200 (Some current_list_temperature)) (JInt 35) (JInt 139)) =
     Inr \<lparr>temperature_c = JList [],
          feels_like_c = JFloat (PyFloat None ''10.2''),
          humidity_pct = JInt 65,
          wind_speed_kmh = JFloat (PyFloat None ''15.3''),
          wind_direction_deg = JInt 270,
          precipitation_mm = JFloat (PyFloat (Some 0) ''0.0''),
          condition = ''Partly cloudy'', weather_code = JInt 2,
          observation_time = JStr ''2026-02-20T15:00''\<rparr>"
    by (simp add: wmo_get_def WMO_CODES_def)
  have run4: "fst (get_current (\<lambda>r. Responds 200 (Some current_sample)) (JInt 35) (JInt 139)) =
     Inr \<lparr>temperature_c = JFloat (PyFloat None ''12.5''),
          feels_like_c = JFloat (PyFloat None ''10.2''),
          humidity_pct = JInt 65,
          wind_speed_kmh = JFloat (PyFloat None ''15.3''),
          wind_direction_deg = JInt 270,
          precipitation_mm = JFloat (PyFloat (Some 0) ''0.0''),
          condition = ''Partly cloudy'', weather_code = JInt 2,
          observation_time = JStr ''2026-02-20T15:00''\<rparr>"
    by code_simp
  from main [where client = "\<lambda>r. Responds 200 (Some current_sample)" and lat = "JInt 35" and lon = "JInt 139"
      and data = current_sample and r = "\<lparr>temperature_c = JFloat (PyFloat None ''12.5''),
          feels_like_c = JFloat (PyFloat None ''10.2''),
          humidity_pct = JInt 65,
          wind_speed_kmh = JFloat (PyFloat None ''15.3''),
          wind_direction_deg = JInt 270,
          precipitation_mm = JFloat (PyFloat (Some 0) ''0.0''),
          condition = ''Partly cloudy'', weather_code = JInt 2,
          observation_time = JStr ''2026-02-20T15:00''\<rparr>",
      THEN conjunct2, THEN conjunct2, THEN conjunct2, THEN conjunct2, THEN conjunct1] run4
  have w4: "\<exists>cur. getitem current_sample ''current'' = Inr cur \<and>
      getitem cur ''temperature_2m'' = Inr (JFloat (PyFloat None ''12.5'')) \<and>
      getitem cur ''weather_code'' = Inr (JInt 2) \<and>
      describe_weather_code (JInt 2) = Inr ''Partly cloudy''"
    by auto
  from main [where client = "\<lambda>r. Responds 200 (Some error_body)" and lat = "JInt 35" and lon = "JInt 139"
      and days = 3 and data = error_body,
      THEN conjunct2, THEN conjunct2, THEN conjunct2, THEN conjunct2, THEN conjunct2, THEN conjunct1]
  have w5: "\<exists>e. fst (get_forecast (\<lambda>r. Responds 200 (Some error_body)) (JInt 35) (JInt 139) 3) =
      Inl (HTTPException 502 (Unexpected_format e))"
    by (simp add: error_body_def)
  from main [where client = "\<lambda>r. Responds 200 (Some (JDict [(''daily'', JDict [])]))" and lat = "JInt 35" and lon = "JInt 139"
      and days = 3 and data = "JDict [(''daily'', JDict [])]" and daily = "JDict []",
      THEN conjunct2, THEN conjunct2, THEN conjunct2, THEN conjunct2, THEN conjunct2, THEN conjunct2, THEN conjunct1]
  have w6: "\<exists>e. fst (get_forecast (\<lambda>r. Responds 200 (Some (JDict [(''daily'', JDict [])]))) (JInt 35) (JInt 139) 3) =
      Inl (HTTPException 502 (Unexpected_format e))"
    by simp
  from main [where client = "\<lambda>r. Responds 200 (Some (JDict [(''daily'', JDict [(''time'', JInt 3)])]))" and lat = "JInt 35" and lon = "JInt 139"
      and days = 3 and data = "JDict [(''daily'', JDict [(''time'', JInt 3)])]" and daily = "JDict [(''time'', JInt 3)]" and t = "JInt 3",
      THEN conjunct2, THEN conjunct2, THEN conjunct2, THEN conjunct2, THEN conjunct2, THEN conjunct2, THEN conjunct2, THEN conjunct1]
  have w7: "\<exists>e. fst (get_forecast (\<lambda>r. Responds 200 (Some (JDict [(''daily'', JDict [(''time'', JInt 3)])]))) (JInt 35) (JInt 139) 3) =
      Inl (HTTPException 502 (Unexpected_format e))"
    by simp
  from main [where client = "\<lambda>r. Responds 200 (Some (JDict [(''daily'', JDict [(''time'', JList [JStr ''2026-02-21''])])]))" and lat = "JInt 35" and lon = "JInt 139"
      and days = 3 and data = "JDict [(''daily'', JDict [(''time'', JList [JStr ''2026-02-21''])])]" and daily = "JDict [(''time'', JList [JStr ''2026-02-21''])]"
      and t = "JList [JStr ''2026-02-21'']" and n = 1 and k = "''weather_code''",
      THEN conjunct2, THEN conjunct2, THEN conjunct2, THEN conjunct2, THEN conjunct2, THEN conjunct2, THEN conjunct2, THEN conjunct2, THEN conjunct1]
  have w8: "\<exists>e. fst (get_forecast (\<lambda>r. Responds 200 (Some (JDict [(''daily'', JDict [(''time'', JList [JStr ''2026-02-21''])])]))) (JInt 35) (JInt 139) 3) =
      Inl (HTTPException 502 (Unexpected_format e))"
    by (simp add: daily_arrays_def)
  have d9: "getitem forecast_short_codes ''daily'' = Inr daily_short_codes"
    by (simp add: forecast_short_codes_def)
  have t9: "getitem daily_short_codes ''time'' = Inr (JList [JStr ''2026-02-21'', JStr ''2026-02-22'', JStr ''2026-02-23''])"
    by (simp add: daily_short_codes_def)
  have i9: "isl (daily_at daily_short_codes ''weather_code'' 2)"
    by (simp add: daily_at_def daily_short_codes_def)
  from main [where client = "\<lambda>r. Responds 200 (Some forecast_short_codes)" and lat = "JInt 35" and lon = "JInt 139"
      and days = 3 and data = forecast_short_codes and daily = daily_short_codes
      and t = "JList [JStr ''2026-02-21'', JStr ''2026-02-22'', JStr ''2026-02-23'']" and n = 3 and i = 2 and k = "''weather_code''",
      THEN conjunct2, THEN conjunct2, THEN conjunct2, THEN conjunct2, THEN conjunct2, THEN conjunct2, THEN conjunct2, THEN conjunct2, THEN conjunct2, THEN conjunct1] d9 t9 i9
  have w9: "\<exists>e. fst (get_forecast (\<lambda>r. Responds 200 (Some forecast_short_codes)) (JInt 35) (JInt 139) 3) =
      Inl (HTTPException 502 (Unexpected_format e))"
    by (simp add: daily_arrays_def)
  have d10: "getitem forecast_list_code ''daily'' = Inr daily_list_code"
    by (simp add: forecast_list_code_def)
  have t10: "getitem daily_list_code ''time'' = Inr (JList [JStr ''2026-02-21''])"
    and c10: "daily_at daily_list_code ''weather_code'' 0 = Inr (JList [JInt 61])"
    by (simp_all add: daily_list_code_def daily_at_def)
  from main [where client = "\<lambda>r. Responds 200 (Some forecast_list_code)" and lat = "JInt 35" and lon = "JInt 139"
      and days = 1 and data = forecast_list_code and daily = daily_list_code
      and t = "JList [JStr ''2026-02-21'']" and n = 1 and i = 0 and c = "JList [JInt 61]",
      THEN conjunct2, THEN conjunct2, THEN conjunct2, THEN conjunct2, THEN conjunct2, THEN conjunct2, THEN conjunct2, THEN conjunct2, THEN conjunct2, THEN conjunct2, THEN conjunct1] d10 t10 c10
  have w10: "\<exists>e. fst (get_forecast (\<lambda>r. Responds 200 (Some forecast_list_code)) (JInt 35) (JInt 139) 1) =
      Inl (HTTPException 502 (Unexpected_format e))"
    by simp
  have d11: "getitem forecast_two_days ''daily'' = Inr daily_two_days"
    by (simp add: forecast_two_days_def)
  have t11: "getitem daily_two_days ''time'' = Inr (JList [JStr ''2026-02-21'', JStr ''2026-02-22''])"
    by (simp add: daily_two_days_def)
  have a11: "\<forall>i<2. \<forall>k\<in>set (''time'' # daily_arrays). \<not> isl (daily_at daily_two_days k i)"
    by (simp add: numeral_2_eq_2 less_Suc_eq daily_arrays_def daily_at_def daily_two_days_def)
  have h11: "\<forall>i<2. \<forall>c. daily_at daily_two_days ''weather_code'' i = Inr c \<longrightarrow> hashable c"
    by (auto simp: numeral_2_eq_2 less_Suc_eq daily_at_def daily_two_days_def)
  from main [where client = "\<lambda>r. Responds 200 (Some forecast_two_days)" and lat = "JInt 35" and lon = "JInt 139"
      and days = 3 and data = forecast_two_days and daily = daily_two_days
      and t = "JList [JStr ''2026-02-21'', JStr ''2026-02-22'']" and n = 2,
      THEN conjunct2, THEN conjunct2, THEN conjunct2, THEN conjunct2, THEN conjunct2, THEN conjunct2, THEN conjunct2, THEN conjunct2, THEN conjunct2, THEN conjunct2, THEN conjunct2, THEN conjunct1] d11 t11 a11 h11
  have w11: "\<exists>out. fst (get_forecast (\<lambda>r. Responds 200 (Some forecast_two_days)) (JInt 35) (JInt 139) 3) = Inr out \<and>
      length out = 2"
    by simp
  have d12: "getitem forecast_no_days_codes_only ''daily'' =
      Inr (JDict [(''time'', JList []), (''weather_code'', JList [])])"
    by (simp add: forecast_no_days_codes_only_def)
  from main [where client = "\<lambda>r. Responds 200 (Some forecast_no_days_codes_only)" and lat = "JInt 35" and lon = "JInt 139"
      and days = 3 and data = forecast_no_days_codes_only and daily = "JDict [(''time'', JList []), (''weather_code'', JList [])]"
      and t = "JList []",
      THEN conjunct2, THEN conjunct2, THEN conjunct2, THEN conjunct2, THEN conjunct2, THEN conjunct2, THEN conjunct2, THEN conjunct2, THEN conjunct2, THEN conjunct2, THEN conjunct2, THEN conjunct2, THEN conjunct1] d12
  have w12: "fst (get_forecast (\<lambda>r. Responds 200 (Some forecast_no_days_codes_only)) (JInt 35) (JInt 139) 3) = Inr []"
    by simp
  have run13: "fst (get_forecast (\<lambda>r. Responds 200 (Some forecast_two_days)) (JInt 35) (JInt 139) 3) =
     Inr [\<lparr>date = JStr ''2026-02-21'', day_condition = ''Slight rain'', day_weather_code = JInt 61,
           temp_max_c = JInt 15, temp_min_c = JInt 8, day_precipitation_mm = JInt 12,
           precipitation_probability_pct = JInt 85, wind_max_kmh = JInt 22\<rparr>,
          \<lparr>date = JStr ''2026-02-22'', day_condition = ''Clear sky'', day_weather_code = JInt 0,
           temp_max_c = JInt 18, temp_min_c = JInt 9, day_precipitation_mm = JInt 0,
           precipitation_probability_pct = JInt 5, wind_max_kmh = JInt 10\<rparr>]"
    by code_simp
  from main [where client = "\<lambda>r. Responds 200 (Some forecast_two_days)" and lat = "JInt 35" and lon = "JInt 139"
      and days = 3 and data = forecast_two_days and rows = "[\<lparr>date = JStr ''2026-02-21'', day_condition = ''Slight rain'', day_weather_code = JInt 61,
           temp_max_c = JInt 15, temp_min_c = JInt 8, day_precipitation_mm = JInt 12,
           precipitation_probability_pct = JInt 85, wind_max_kmh = JInt 22\<rparr>,
          \<lparr>date = JStr ''2026-02-22'', day_condition = ''Clear sky'', day_weather_code = JInt 0,
           temp_max_c = JInt 18, temp_min_c = JInt 9, day_precipitation_mm = JInt 0,
           precipitation_probability_pct = JInt 5, wind_max_kmh = JInt 10\<rparr>]",
      THEN conjunct2, THEN conjunct2, THEN conjunct2, THEN conjunct2, THEN conjunct2, THEN conjunct2, THEN conjunct2, THEN conjunct2, THEN conjunct2, THEN conjunct2, THEN conjunct2, THEN conjunct2, THEN conjunct2] run13
  obtain daily where d13: "getitem forecast_two_days ''daily'' = Inr daily"
    and e13: "\<forall>i<length [\<lparr>date = JStr ''2026-02-21'', day_condition = ''Slight rain'', day_weather_code = JInt 61,
           temp_max_c = JInt 15, temp_min_c = JInt 8, day_precipitation_mm = JInt 12,
           precipitation_probability_pct = JInt 85, wind_max_kmh = JInt 22\<rparr>,
          \<lparr>date = JStr ''2026-02-22'', day_condition = ''Clear sky'', day_weather_code = JInt 0,
           temp_max_c = JInt 18, temp_min_c = JInt 9, day_precipitation_mm = JInt 0,
           precipitation_probability_pct = JInt 5, wind_max_kmh = JInt 10\<rparr>].
            daily_at daily ''time'' i = Inr (date ([\<lparr>date = JStr ''2026-02-21'', day_condition = ''Slight rain'', day_weather_code = JInt 61,
           temp_max_c = JInt 15, temp_min_c = JInt 8, day_precipitation_mm = JInt 12,
           precipitation_probability_pct = JInt 85, wind_max_kmh = JInt 22\<rparr>,
          \<lparr>date = JStr ''2026-02-22'', day_condition = ''Clear sky'', day_weather_code = JInt 0,
           temp_max_c = JInt 18, temp_min_c = JInt 9, day_precipitation_mm = JInt 0,
           precipitation_probability_pct = JInt 5, wind_max_kmh = JInt 10\<rparr>] ! i)) \<and>
            daily_at daily ''weather_code'' i = Inr (day_weather_code ([\<lparr>date = JStr ''2026-02-21'', day_condition = ''Slight rain'', day_weather_code = JInt 61,
           temp_max_c = JInt 15, temp_min_c = JInt 8, day_precipitation_mm = JInt 12,
           precipitation_probability_pct = JInt 85, wind_max_kmh = JInt 22\<rparr>,
          \<lparr>date = JStr ''2026-02-22'', day_condition = ''Clear sky'', day_weather_code = JInt 0,
           temp_max_c = JInt 18, temp_min_c = JInt 9, day_precipitation_mm = JInt 0,
           precipitation_probability_pct = JInt 5, wind_max_kmh = JInt 10\<rparr>] ! i))"
    by auto
  from e13 have "daily_at daily ''time'' 1 = Inr (JStr ''2026-02-22'') \<and>
      daily_at daily ''weather_code'' 1 = Inr (JInt 0)"
    by (auto dest: spec [where x = 1])
  with d13 have w13: "\<exists>daily. getitem forecast_two_days ''daily'' = Inr daily \<and>
      daily_at daily ''time'' 1 = Inr (JStr ''2026-02-22'') \<and>
      daily_at daily ''weather_code'' 1 = Inr (JInt 0)"
    by blast
  from w0 w1 w2 w3 w4 w5 w6 w7 w8 w9 w10 w11 w12 w13 show ?thesis by blast
qed

section \<open>What escapes the weather client\<close>

lemma in_taxonomy_current: "in_taxonomy (except_format (current_data data))"
proof (cases "current_data data")
  case (Inl e)
  from current_failure_502 [OF this] show ?thesis by simp
next
  case (Inr r)
  then show ?thesis by simp
qed

lemma in_taxonomy_forecast: "in_taxonomy (except_format (forecast_data data))"
proof (cases "forecast_data data")
  case (Inl e)
  from forecast_failure_502 [OF this] show ?thesis by simp
next
  case (Inr r)
  then show ?thesis by simp
qed

lemma in_taxonomy_fetch:
  "client req \<noteq> Raises_other \<Longrightarrow> client req \<noteq> Responds 200 None \<Longrightarrow>
   fetch client req = Inl f \<Longrightarrow> in_taxonomy (Inl f)"
  by (auto simp: fetch_def split: http_outcome.splits if_splits option.splits)

text \<open>
  C2, as amended. Whatever the upstream answers, short of a 200 response whose body does
  not decode as JSON, \<open>get_current\<close> and \<open>get_forecast\<close> end by returning a value or by
  raising an \<open>HTTPException\<close> of the taxonomy. \<open>geocode\<close> does so on a timeout, a
  transport error and a status other than 200, on a 200 object whose \<open>results\<close> is missing
  or falsy, and on a 200 object whose \<open>results\<close> is a list starting with an object that
  has \<open>name\<close>, \<open>latitude\<close> and \<open>longitude\<close>. A 200 response whose body does not decode
  makes each of the three raise the decoding error itself: \<open>resp.json()\<close> stands outside
  every \<open>try\<close>.
\<close>

theorem faults_caught_except_undecodable_bodies:
  "(client (current_request lat lon) \<noteq> Raises_other \<and>
    client (current_request lat lon) \<noteq> Responds 200 None \<longrightarrow>
      in_taxonomy (fst (get_current client lat lon))) \<and>
   (client (forecast_request lat lon days) \<noteq> Raises_other \<and>
    client (forecast_request lat lon days) \<noteq> Responds 200 None \<longrightarrow>
      in_taxonomy (fst (get_forecast client lat lon days))) \<and>
   (client (geocode_request city) = Raises_TimeoutException \<or>
    client (geocode_request city) = Raises_HTTPError \<or>
    (\<exists>code b. client (geocode_request city) = Responds code b \<and> code \<noteq> 200) \<longrightarrow>
      in_taxonomy (fst (geocode client city))) \<and>
   (client (geocode_request city) = Responds 200 (Some (JDict kvs)) \<and>
    (map_of kvs ''results'' = None \<or> (\<exists>v. map_of kvs ''results'' = Some v \<and> \<not> truthy v)) \<longrightarrow>
      in_taxonomy (fst (geocode client city))) \<and>
   (client (geocode_request city) = Responds 200 (Some (JDict kvs)) \<and>
    map_of kvs ''results'' = Some (JList (JDict hkvs # others)) \<and>
    map_of hkvs ''name'' \<noteq> None \<and> map_of hkvs ''latitude'' \<noteq> None \<and>
    map_of hkvs ''longitude'' \<noteq> None \<longrightarrow>
      in_taxonomy (fst (geocode client city))) \<and>
   (client (current_request lat lon) = Responds 200 None \<longrightarrow>
      fst (get_current client lat lon) = Inl (Uncaught JSONDecodeError)) \<and>
   (client (forecast_request lat lon days) = Responds 200 None \<longrightarrow>
      fst (get_forecast client lat lon days) = Inl (Uncaught JSONDecodeError)) \<and>
   (client (geocode_request city) = Responds 200 None \<longrightarrow>
      fst (geocode client city) = Inl (Uncaught JSONDecodeError))"
proof (intro conjI impI)
  assume a: "client (current_request lat lon) \<noteq> Raises_other \<and>
    client (current_request lat lon) \<noteq> Responds 200 None"
  show "in_taxonomy (fst (get_current client lat lon))"
  proof (cases "fetch client (current_request lat lon)")
    case (Inl f)
    with a show ?thesis
      by (auto simp: fst_get_current dest: in_taxonomy_fetch)
  next
    case (Inr data)
    then show ?thesis
      by (simp add: fst_get_current in_taxonomy_current)
  qed
next
  assume a: "client (forecast_request lat lon days) \<noteq> Raises_other \<and>
    client (forecast_request lat lon days) \<noteq> Responds 200 None"
  show "in_taxonomy (fst (get_forecast client lat lon days))"
  proof (cases "fetch client (forecast_request lat lon days)")
    case (Inl f)
    with a show ?thesis
      by (auto simp: fst_get_forecast dest: in_taxonomy_fetch)
  next
    case (Inr data)
    then show ?thesis
      by (simp add: fst_get_forecast in_taxonomy_forecast)
  qed
next
  assume "client (geocode_request city) = Raises_TimeoutException \<or>
    client (geocode_request city) = Raises_HTTPError \<or>
    (\<exists>code b. client (geocode_request city) = Responds code b \<and> code \<noteq> 200)"
  then show "in_taxonomy (fst (geocode client city))"
    by (auto simp: fst_geocode fetch_def)
next
  assume "client (geocode_request city) = Responds 200 (Some (JDict kvs)) \<and>
    (map_of kvs ''results'' = None \<or> (\<exists>v. map_of kvs ''results'' = Some v \<and> \<not> truthy v))"
  then show "in_taxonomy (fst (geocode client city))"
    by (auto simp: fst_geocode fetch_def geocode_data_def)
next
  assume "client (geocode_request city) = Responds 200 (Some (JDict kvs)) \<and>
    map_of kvs ''results'' = Some (JList (JDict hkvs # others)) \<and>
    map_of hkvs ''name'' \<noteq> None \<and> map_of hkvs ''latitude'' \<noteq> None \<and>
    map_of hkvs ''longitude'' \<noteq> None"
  then show "in_taxonomy (fst (geocode client city))"
    by (auto simp: fst_geocode fetch_def geocode_data_def geocode_hit_def no_except_def
        split: option.splits)
next
  assume "client (current_request lat lon) = Responds 200 None"
  then show "fst (get_current client lat lon) = Inl (Uncaught JSONDecodeError)"
    by (simp add: fst_get_current fetch_undecodable)
next
  assume "client (forecast_request lat lon days) = Responds 200 None"
  then show "fst (get_forecast client lat lon days) = Inl (Uncaught JSONDecodeError)"
    by (simp add: fst_get_forecast fetch_undecodable)
next
  assume "client (geocode_request city) = Responds 200 None"
  then show "fst (geocode client city) = Inl (Uncaught JSONDecodeError)"
    by (simp add: fst_geocode fetch_undecodable)
qed

text \<open>
  The claim as first stated fails on an undecodable body, and in \<open>geocode\<close> on a first
  entry without \<open>latitude\<close>.
\<close>

theorem raw_faults_escape_counterexample:
  "fst (get_current (\<lambda>r. Responds 200 None) (JInt 35) (JInt 139)) =
     Inl (Uncaught JSONDecodeError) \<and>
   \<not> in_taxonomy (fst (get_current (\<lambda>r. Responds 200 None) (JInt 35) (JInt 139))) \<and>
   fst (geocode (\<lambda>r. Responds 200 (Some (JDict [(''results'',
          JList [JDict [(''name'', JStr ''Tokyo''), (''longitude'', JInt 139)]])]))) ''Tokyo'') =
     Inl (Uncaught KeyError) \<and>
   \<not> in_taxonomy (fst (geocode (\<lambda>r. Responds 200 (Some (JDict [(''results'',
          JList [JDict [(''name'', JStr ''Tokyo''), (''longitude'', JInt 139)]])]))) ''Tokyo''))"
  by (simp add: fst_get_current fst_geocode fetch_def geocode_data_def geocode_hit_def
      no_except_def)

theorem faults_caught_except_undecodable_bodies_witness:
  "in_taxonomy (fst (get_current (\<lambda>r. Responds 200 (Some error_body)) (JInt 35) (JInt 139))) \<and>
   in_taxonomy (fst (get_forecast (\<lambda>r. Raises_TimeoutException) (JInt 35) (JInt 139) 3)) \<and>
   in_taxonomy (fst (geocode (\<lambda>r. Responds 500 None) ''Tokyo'')) \<and>
   in_taxonomy (fst (geocode (\<lambda>r. Responds 200 (Some (JDict [(''results'', JNull)]))) ''Tokyo'')) \<and>
   in_taxonomy (fst (geocode (\<lambda>r. Responds 200 (Some (JDict [(''results'',
      JList [JDict [(''name'', JStr ''Tokyo''), (''latitude'', JInt 35),
                    (''longitude'', JInt 139)]])]))) ''Tokyo'')) \<and>
   fst (get_current (\<lambda>r. Responds 200 None) (JInt 35) (JInt 139)) =
     Inl (Uncaught JSONDecodeError) \<and>
   fst (get_forecast (\<lambda>r. Responds 200 None) (JInt 35) (JInt 139) 3) =
     Inl (Uncaught JSONDecodeError) \<and>
   fst (geocode (\<lambda>r. Responds 200 None) ''Tokyo'') = Inl (Uncaught JSONDecodeError)"
proof -
  let ?lat = "JInt 35" and ?lon = "JInt 139"
  note main = faults_caught_except_undecodable_bodies
  from main [where client = "\<lambda>r. Responds 200 (Some error_body)" and lat = ?lat and lon = ?lon,
      THEN conjunct1]
  have w1: "in_taxonomy (fst (get_current (\<lambda>r. Responds 200 (Some error_body)) ?lat ?lon))"
    by simp
  from main [where client = "\<lambda>r. Raises_TimeoutException" and lat = ?lat and lon = ?lon
      and days = 3, THEN conjunct2, THEN conjunct1]
  have w2: "in_taxonomy (fst (get_forecast (\<lambda>r. Raises_TimeoutException) ?lat ?lon 3))"
    by simp
  from main [where client = "\<lambda>r. Responds 500 None" and city = "''Tokyo''",
      THEN conjunct2, THEN conjunct2, THEN conjunct1]
  have w3: "in_taxonomy (fst (geocode (\<lambda>r. Responds 500 None) ''Tokyo''))"
    by simp
  from main [where client = "\<lambda>r. Responds 200 (Some (JDict [(''results'', JNull)]))"
      and city = "''Tokyo''" and kvs = "[(''results'', JNull)]",
      THEN conjunct2, THEN conjunct2, THEN conjunct2, THEN conjunct1]
  have w4: "in_taxonomy (fst (geocode (\<lambda>r. Responds 200 (Some (JDict [(''results'', JNull)])))
      ''Tokyo''))"
    by simp
  from main [where client = "\<lambda>r. Responds 200 (Some (JDict [(''results'',
      JList [JDict [(''name'', JStr ''Tokyo''), (''latitude'', JInt 35),
                    (''longitude'', JInt 139)]])]))"
      and city = "''Tokyo''"
      and kvs = "[(''results'', JList [JDict [(''name'', JStr ''Tokyo''), (''latitude'', JInt 35),
                    (''longitude'', JInt 139)]])]"
      and hkvs = "[(''name'', JStr ''Tokyo''), (''latitude'', JInt 35), (''longitude'', JInt 139)]"
      and others = "[]",
      THEN conjunct2, THEN conjunct2, THEN conjunct2, THEN conjunct2, THEN conjunct1]
  have w5: "in_taxonomy (fst (geocode (\<lambda>r. Responds 200 (Some (JDict [(''results'',
      JList [JDict [(''name'', JStr ''Tokyo''), (''latitude'', JInt 35),
                    (''longitude'', JInt 139)]])]))) ''Tokyo''))"
    by simp
  from main [where client = "\<lambda>r. Responds 200 None" and lat = ?lat and lon = ?lon and days = 3
      and city = "''Tokyo''",
      THEN conjunct2, THEN conjunct2, THEN conjunct2, THEN conjunct2, THEN conjunct2]
  have w6: "fst (get_current (\<lambda>r. Responds 200 None) ?lat ?lon) = Inl (Uncaught JSONDecodeError) \<and>
    fst (get_forecast (\<lambda>r. Responds 200 None) ?lat ?lon 3) = Inl (Uncaught JSONDecodeError) \<and>
    fst (geocode (\<lambda>r. Responds 200 None) ''Tokyo'') = Inl (Uncaught JSONDecodeError)"
    by simp
  from w1 w2 w3 w4 w5 w6 show ?thesis by blast
qed

section \<open>The payment gate in front of the routes\<close>

lemma lookup_health: "lookup cfg ''GET'' ''/health'' = None"
  by (simp add: lookup_def routes_def)

lemma evaluate_unpaid:
  "lookup cfg (rq_method rq) (rq_path rq) = Some pricing \<Longrightarrow>
   rq_payment rq = None \<or>
     (\<exists>token. rq_payment rq = Some token \<and> (\<forall>opt\<in>set (accepts pricing). \<not> verify token opt)) \<Longrightarrow>
   evaluate verify cfg rq = Challenge pricing"
proof -
  assume p: "lookup cfg (rq_method rq) (rq_path rq) = Some pricing"
    and u: "rq_payment rq = None \<or>
     (\<exists>token. rq_payment rq = Some token \<and> (\<forall>opt\<in>set (accepts pricing). \<not> verify token opt))"
  show ?thesis
  proof (cases "rq_payment rq")
    case None
    with p show ?thesis by (simp add: evaluate_def)
  next
    case (Some token)
    with u have "find (verify token) (accepts pricing) = None"
      by (simp add: find_None_iff)
    with p Some show ?thesis by (simp add: evaluate_def)
  qed
qed

text \<open>
  C1. A request to a priced route that carries no payment proof, or a proof that the
  facilitator accepts for none of the route's requirements, is answered with status 402
  and a body listing every requirement configured for the route, and nothing downstream
  runs: no route function is called and no upstream request is sent. The two weather
  routes are priced, each with the one configured payment option. \<open>GET /health\<close> has
  no pricing entry, whatever the configuration and the request's proof: it is answered
  with status 200 by \<open>health_check\<close>.
\<close>

theorem unpaid_priced_request_gets_402_and_health_is_free:
  "(lookup cfg (rq_method rq) (rq_path rq) = Some pricing \<and>
    (rq_payment rq = None \<or>
     (\<exists>token. rq_payment rq = Some token \<and>
        (\<forall>opt\<in>set (accepts pricing). \<not> verify token opt))) \<longrightarrow>
      serve verify accepted_current accepted_forecast cfg client rq =
        Some (Response 402
                (Payment_required (accepts pricing) (mime_type pricing) (description pricing)),
              [])) \<and>
   (\<exists>pricing. lookup cfg ''GET'' ''/weather/current'' = Some pricing \<and>
      accepts pricing = [PAYMENT cfg]) \<and>
   (\<exists>pricing. lookup cfg ''GET'' ''/weather/forecast'' = Some pricing \<and>
      accepts pricing = [PAYMENT cfg]) \<and>
   (rq_method rq = ''GET'' \<and> rq_path rq = ''/health'' \<longrightarrow>
      serve verify accepted_current accepted_forecast cfg client rq =
        Some (Response 200 (HealthResponse ''ok'' ''weather-api'' (NETWORK cfg)),
              [Handler_called ''health_check'']))"
proof (intro conjI impI)
  assume "lookup cfg (rq_method rq) (rq_path rq) = Some pricing \<and>
    (rq_payment rq = None \<or>
     (\<exists>token. rq_payment rq = Some token \<and>
        (\<forall>opt\<in>set (accepts pricing). \<not> verify token opt)))"
  then have "evaluate verify cfg rq = Challenge pricing"
    by (intro evaluate_unpaid) blast+
  then show "serve verify accepted_current accepted_forecast cfg client rq =
        Some (Response 402
                (Payment_required (accepts pricing) (mime_type pricing) (description pricing)),
              [])"
    by (simp add: serve_def payment_gate_def)
next
  show "\<exists>pricing. lookup cfg ''GET'' ''/weather/current'' = Some pricing \<and>
      accepts pricing = [PAYMENT cfg]"
    by (simp add: lookup_def routes_def)
next
  show "\<exists>pricing. lookup cfg ''GET'' ''/weather/forecast'' = Some pricing \<and>
      accepts pricing = [PAYMENT cfg]"
    by (simp add: lookup_def routes_def)
next
  assume a: "rq_method rq = ''GET'' \<and> rq_path rq = ''/health''"
  then have "evaluate verify cfg rq = Free"
    by (simp add: evaluate_def lookup_health)
  with a show "serve verify accepted_current accepted_forecast cfg client rq =
        Some (Response 200 (HealthResponse ''ok'' ''weather-api'' (NETWORK cfg)),
              [Handler_called ''health_check''])"
    by (simp add: serve_def payment_gate_def app_def render_def health_check_def)
qed

theorem unpaid_priced_request_gets_402_and_health_is_free_witness:
  "(\<exists>mt ds. serve (\<lambda>token opt. True) (\<lambda>loc data. True) (\<lambda>loc days. True) sample_config
       (\<lambda>r. Raises_HTTPError) current_rq =
     Some (Response 402 (Payment_required [PAYMENT sample_config] mt ds), [])) \<and>
   (\<exists>mt ds. serve (\<lambda>token opt. False) (\<lambda>loc data. True) (\<lambda>loc days. True) sample_config
       (\<lambda>r. Raises_HTTPError) forecast_rq =
     Some (Response 402 (Payment_required [PAYMENT sample_config] mt ds), [])) \<and>
   serve (\<lambda>token opt. True) (\<lambda>loc data. True) (\<lambda>loc days. True) sample_config
       (\<lambda>r. Raises_HTTPError) health_rq =
     Some (Response 200 (HealthResponse ''ok'' ''weather-api'' ''eip155:84532''),
           [Handler_called ''health_check''])"
proof -
  note main = unpaid_priced_request_gets_402_and_health_is_free
  from main [where cfg = sample_config and rq = current_rq
      and pricing = "snd (routes sample_config ! 0)" and verify = "\<lambda>token opt. True"
      and accepted_current = "\<lambda>loc data. True" and accepted_forecast = "\<lambda>loc days. True"
      and client = "\<lambda>r. Raises_HTTPError", THEN conjunct1]
  have w1: "\<exists>mt ds. serve (\<lambda>token opt. True) (\<lambda>loc data. True) (\<lambda>loc days. True) sample_config
       (\<lambda>r. Raises_HTTPError) current_rq =
     Some (Response 402 (Payment_required [PAYMENT sample_config] mt ds), [])"
    by (simp add: lookup_def routes_def current_rq_def)
  from main [where cfg = sample_config and rq = forecast_rq
      and pricing = "snd (routes sample_config ! 1)" and verify = "\<lambda>token opt. False"
      and accepted_current = "\<lambda>loc data. True" and accepted_forecast = "\<lambda>loc days. True"
      and client = "\<lambda>r. Raises_HTTPError", THEN conjunct1]
  have w2: "\<exists>mt ds. serve (\<lambda>token opt. False) (\<lambda>loc data. True) (\<lambda>loc days. True) sample_config
       (\<lambda>r. Raises_HTTPError) forecast_rq =
     Some (Response 402 (Payment_required [PAYMENT sample_config] mt ds), [])"
    by (simp add: lookup_def routes_def forecast_rq_def)
  from main [where cfg = sample_config and rq = health_rq
      and verify = "\<lambda>token opt. True"
      and accepted_current = "\<lambda>loc data. True" and accepted_forecast = "\<lambda>loc days. True"
      and client = "\<lambda>r. Raises_HTTPError",
      THEN conjunct2, THEN conjunct2, THEN conjunct2]
  have w3: "serve (\<lambda>token opt. True) (\<lambda>loc data. True) (\<lambda>loc days. True) sample_config
       (\<lambda>r. Raises_HTTPError) health_rq =
     Some (Response 200 (HealthResponse ''ok'' ''weather-api'' ''eip155:84532''),
           [Handler_called ''health_check''])"
    by (simp add: health_rq_def sample_config_def)
  from w1 w2 w3 show ?thesis by blast
qed

end
